theory Spec2Isabelle
  imports Complex_Main
begin

section \<open>JavaScript numbers and coercions\<close>

text \<open>
  A JavaScript number is an IEEE 754 double. A finite double is modelled as the real number
  that it denotes, and an arithmetic operation of the source as the exact operation followed by
  \<open>rnd\<close>, the rounding to the nearest double, a tie going to the even significand. A
  decimal literal of the source and a number of a JSON payload denote \<open>rnd\<close> of their
  decimal value. The exponent of \<open>rnd\<close> is bounded below (the subnormal numbers are
  there) and not above: a result beyond the largest double, where the source has an infinity,
  is outside the model, and so is NaN. A property that may be missing (\<open>undefined\<close> or
  \<open>null\<close>) is an option, \<open>None\<close> standing for both.
\<close>

type_synonym num = "real option"

definition pow2 :: "int \<Rightarrow> real" where
  "pow2 e = (if 0 \<le> e then 2 ^ nat e else 1 / 2 ^ nat (- e))"

definition expo :: "real \<Rightarrow> int" where
  \<comment> \<open>The binary exponent: \<open>pow2 (expo x) \<le> \<bar>x\<bar> < pow2 (expo x + 1)\<close>.\<close>
  "expo x = (if x = 0 then 0 else \<lfloor>log 2 \<bar>x\<bar>\<rfloor>)"

definition rhe :: "real \<Rightarrow> int" where
  \<comment> \<open>The nearest integer, a tie going to the even one.\<close>
  "rhe y = (let f = \<lfloor>y\<rfloor>; d = y - of_int f
            in if d < 1 / 2 then f else if 1 / 2 < d then f + 1 else if even f then f else f + 1)"

definition rnd :: "real \<Rightarrow> real" where
  \<comment> \<open>The nearest double: a multiple of the unit in the last of the 53 bits of the significand,
      the exponent being at least that of the subnormal numbers.\<close>
  "rnd x = (let u = pow2 (max (expo x) (- 1022) - 52) in of_int (rhe (x / u)) * u)"

definition fadd :: "real \<Rightarrow> real \<Rightarrow> real" where
  "fadd a b = rnd (a + b)"

definition fsub :: "real \<Rightarrow> real \<Rightarrow> real" where
  "fsub a b = rnd (a - b)"

definition fmul :: "real \<Rightarrow> real \<Rightarrow> real" where
  "fmul a b = rnd (a * b)"

definition fdiv :: "real \<Rightarrow> real \<Rightarrow> real" where
  "fdiv a b = rnd (a / b)"

definition Math_sqrt :: "real \<Rightarrow> real" where
  "Math_sqrt a = rnd (sqrt a)"

definition Math_pow_2 :: "real \<Rightarrow> real" where
  \<comment> \<open>\<open>Math.pow(a, 2)\<close>, which the engine computes as the product \<open>a * a\<close>.\<close>
  "Math_pow_2 a = fmul a a"

definition Math_round :: "real \<Rightarrow> real" where
  \<comment> \<open>\<open>Math.round\<close>: the nearest integer, a tie going to the larger one. It is exact.\<close>
  "Math_round x = of_int \<lfloor>x + 1 / 2\<rfloor>"

definition round2 :: "real \<Rightarrow> real" where
  \<comment> \<open>The idiom \<open>Math.round(x * 100) / 100\<close>.\<close>
  "round2 x = fdiv (Math_round (fmul x 100)) 100"

definition or_zero :: "num \<Rightarrow> real" where
  \<comment> \<open>\<open>x || 0\<close> on a number that may be missing.\<close>
  "or_zero x = (case x of None \<Rightarrow> 0 | Some v \<Rightarrow> if v = 0 then 0 else v)"

section \<open>Query log analytics (models/QueryLog.js, services/loggerService.js)\<close>

text \<open>A log entry, with the properties that the statistics read.\<close>

record QueryLog =
  apiName :: string
  logLocation :: string
  responseTime :: num
  status :: string

record Stats =
  total :: nat
  successful :: nat
  failed :: nat
  successRate :: real
  averageResponseTime :: real
  medianResponseTime :: real
  minResponseTime :: real
  maxResponseTime :: real

definition calculateMedian :: "real list \<Rightarrow> real" where
  \<comment> \<open>\<open>QueryLog.calculateMedian\<close>; \<open>ComparisonController.calculateMedian\<close> has the same body.\<close>
  "calculateMedian values =
     (if length values = 0 then 0
      else let sorted = sort values;
               middle = length sorted div 2
           in if length sorted mod 2 = 0
              then Math_round (fdiv (fadd (sorted ! (middle - 1)) (sorted ! middle)) 2)
              else sorted ! middle)"

definition calculateStats :: "QueryLog list \<Rightarrow> Stats" where
  "calculateStats logs =
     (if length logs = 0 then
        \<lparr>total = 0, successful = 0, failed = 0, successRate = 0, averageResponseTime = 0,
         medianResponseTime = 0, minResponseTime = 0, maxResponseTime = 0\<rparr>
      else
        let responseTimes = sort (filter (\<lambda>time. time > 0) (map (\<lambda>log. or_zero (responseTime log)) logs));
            successful = length (filter (\<lambda>log. status log = ''success'') logs);
            failed = length (filter (\<lambda>log. status log = ''error'') logs)
        in \<lparr>total = length logs,
            successful = successful,
            failed = failed,
            successRate = (if length logs > 0
                           then Math_round (fmul (fdiv (real successful) (real (length logs))) 100)
                           else 0),
            averageResponseTime = (if length responseTimes > 0
                           then Math_round (fdiv (foldl (\<lambda>sum time. fadd sum time) 0 responseTimes)
                                                 (real (length responseTimes)))
                           else 0),
            medianResponseTime = (if length responseTimes > 0
                           then calculateMedian responseTimes else 0),
            minResponseTime = (if length responseTimes > 0 then Min (set responseTimes) else 0),
            maxResponseTime = (if length responseTimes > 0 then Max (set responseTimes) else 0)\<rparr>)"



text \<open>The words of the specification about the log, for comparison with the code: the
  latencies that enter the latency statistics, the number of entries of a status, and the
  rounding of a ratio of two counts to a whole percentage.\<close>

definition spec_latencies :: "QueryLog list \<Rightarrow> real list" where
  \<comment> \<open>The response times of the entries whose response time is greater than 0, in log order.\<close>
  "spec_latencies logs = [t. l \<leftarrow> logs, t \<leftarrow> (case responseTime l of None \<Rightarrow> [] | Some v \<Rightarrow> [v]), 0 < t]"

definition spec_count_status :: "string \<Rightarrow> QueryLog list \<Rightarrow> nat" where
  "spec_count_status s logs = length [l \<leftarrow> logs. status l = s]"


section \<open>The weather model (models/Weather.js)\<close>

text \<open>
  The canonical record. Every property is optional, as in the source, where a missing
  property reads as \<open>undefined\<close>; \<open>a?.b\<close> is \<^const>\<open>Option.bind\<close>. Objects that the
  model only passes on (\<open>gust\<close>, \<open>airQuality\<close>) are lists of named numbers.
\<close>

definition or_null :: "num \<Rightarrow> num" where
  \<comment> \<open>\<open>x || null\<close> on a number: 0 is falsy.\<close>
  "or_null x = (case x of None \<Rightarrow> None | Some v \<Rightarrow> if v = 0 then None else Some v)"

definition or_null_str :: "string option \<Rightarrow> string option" where
  \<comment> \<open>\<open>x || null\<close> on a string: the empty string is falsy.\<close>
  "or_null_str x = (case x of None \<Rightarrow> None | Some v \<Rightarrow> if v = [] then None else Some v)"

definition or_str :: "string option \<Rightarrow> string \<Rightarrow> string" where
  \<comment> \<open>\<open>x || 'default'\<close> on a string.\<close>
  "or_str x d = (case x of None \<Rightarrow> d | Some v \<Rightarrow> if v = [] then d else v)"

type_synonym obj = "(string \<times> real) list"

record Coordinates =
  lat :: num
  lon :: num

record Location =
  name :: "string option"
  country :: "string option"
  region :: "string option"
  coordinates :: "Coordinates option"
  timezone :: "string option"

record FeelsLike =
  feels_celsius :: num
  feels_fahrenheit :: num

record Temperature =
  celsius :: num
  fahrenheit :: num
  feelsLike :: "FeelsLike option"

record Pressure =
  hPa :: num
  inHg :: num

record Visibility =
  km :: num
  miles :: num

record Speed =
  mps :: num
  mph :: num
  kmh :: num

record Wind =
  speed :: "Speed option"
  direction :: num
  directionText :: "string option"
  gust :: "obj option"

record Condition =
  main :: "string option"
  description :: "string option"
  icon :: "string option"
  code :: num

record Current =
  temperature :: "Temperature option"
  humidity :: num
  pressure :: "Pressure option"
  visibility :: "Visibility option"
  wind :: "Wind option"
  weather :: "Condition option"
  clouds :: num
  uv :: num
  airQuality :: "obj option"

record Span =
  span_min :: num
  span_max :: num
  span_avg :: num

record DayTemperature =
  day_celsius :: "Span option"
  day_fahrenheit :: "Span option"

record Day =
  date :: "string option"
  day_temperature :: "DayTemperature option"
  day_weather :: "Condition option"
  day_humidity :: num
  day_wind :: "Wind option"
  day_visibility :: "Visibility option"
  day_uv :: num
  precipitation :: num
  sunrise :: "string option"
  sunset :: "string option"

text \<open>The argument of the constructor, and the value of \<open>getStandardized\<close>, which the
  controllers feed to the constructor again.\<close>

record WeatherData =
  data_location :: "Location option"
  data_current :: "Current option"
  data_forecast :: "Day list option"
  data_source :: "string option"
  data_timestamp :: "string option"

record Weather =
  location :: Location
  current :: Current
  forecast :: "Day list"
  source :: string
  timestamp :: string

definition empty_location :: Location where
  "empty_location = \<lparr>name = None, country = None, region = None, coordinates = None, timezone = None\<rparr>"

definition empty_current :: Current where
  "empty_current = \<lparr>temperature = None, humidity = None, pressure = None, visibility = None,
     wind = None, weather = None, clouds = None, uv = None, airQuality = None\<rparr>"

definition new_Weather :: "string \<Rightarrow> WeatherData \<Rightarrow> Weather" where
  \<comment> \<open>The constructor; \<open>now\<close> is \<open>new Date().toISOString()\<close>.\<close>
  "new_Weather now data =
     \<lparr>location = (case data_location data of None \<Rightarrow> empty_location | Some l \<Rightarrow> l),
      current = (case data_current data of None \<Rightarrow> empty_current | Some c \<Rightarrow> c),
      forecast = (case data_forecast data of None \<Rightarrow> [] | Some f \<Rightarrow> f),
      source = or_str (data_source data) ''unknown'',
      timestamp = or_str (data_timestamp data) now\<rparr>"

definition getStandardizedLocation :: "Weather \<Rightarrow> Location" where
  "getStandardizedLocation w =
     \<lparr>name = Some (or_str (name (location w)) ''Unknown''),
      country = Some (or_str (country (location w)) ''Unknown''),
      region = or_null_str (region (location w)),
      coordinates = Some
        \<lparr>lat = or_null (Option.bind (coordinates (location w)) lat),
         lon = or_null (Option.bind (coordinates (location w)) lon)\<rparr>,
      timezone = or_null_str (timezone (location w))\<rparr>"

definition getStandardizedCurrent :: "Weather \<Rightarrow> Current" where
  "getStandardizedCurrent w =
     (let current = current w in
      \<lparr>temperature = Some
         \<lparr>celsius = or_null (Option.bind (temperature current) celsius),
          fahrenheit = or_null (Option.bind (temperature current) fahrenheit),
          feelsLike = Some
            \<lparr>feels_celsius =
               or_null (Option.bind (Option.bind (temperature current) feelsLike) feels_celsius),
             feels_fahrenheit =
               or_null (Option.bind (Option.bind (temperature current) feelsLike) feels_fahrenheit)\<rparr>\<rparr>,
       humidity = or_null (humidity current),
       pressure = Some
         \<lparr>hPa = or_null (Option.bind (pressure current) hPa),
          inHg = or_null (Option.bind (pressure current) inHg)\<rparr>,
       visibility = Some
         \<lparr>km = or_null (Option.bind (visibility current) km),
          miles = or_null (Option.bind (visibility current) miles)\<rparr>,
       wind = Some
         \<lparr>speed = Some
            \<lparr>mps = or_null (Option.bind (Option.bind (wind current) speed) mps),
             mph = or_null (Option.bind (Option.bind (wind current) speed) mph),
             kmh = or_null (Option.bind (Option.bind (wind current) speed) kmh)\<rparr>,
          direction = or_null (Option.bind (wind current) direction),
          directionText = or_null_str (Option.bind (wind current) directionText),
          gust = Option.bind (wind current) gust\<rparr>,
       weather = Some
         \<lparr>main = Some (or_str (Option.bind (weather current) main) ''Unknown''),
          description = Some (or_str (Option.bind (weather current) description) ''No description''),
          icon = or_null_str (Option.bind (weather current) icon),
          code = or_null (Option.bind (weather current) code)\<rparr>,
       clouds = or_null (clouds current),
       uv = or_null (uv current),
       airQuality = airQuality current\<rparr>)"

definition getStandardizedSpan :: "Span option \<Rightarrow> Span" where
  \<comment> \<open>The three lines \<open>min\<close>, \<open>max\<close>, \<open>avg\<close> of one unit in \<open>getStandardizedForecast\<close>.\<close>
  "getStandardizedSpan s =
     \<lparr>span_min = or_null (Option.bind s span_min),
      span_max = or_null (Option.bind s span_max),
      span_avg = or_null (Option.bind s span_avg)\<rparr>"

definition getStandardizedDay :: "Day \<Rightarrow> Day" where
  \<comment> \<open>The function mapped over the days in \<open>getStandardizedForecast\<close>.\<close>
  "getStandardizedDay day =
     \<lparr>date = or_null_str (date day),
      day_temperature = Some
        \<lparr>day_celsius = Some (getStandardizedSpan (Option.bind (day_temperature day) day_celsius)),
         day_fahrenheit = Some (getStandardizedSpan (Option.bind (day_temperature day) day_fahrenheit))\<rparr>,
      day_weather = Some
        \<lparr>main = Some (or_str (Option.bind (day_weather day) main) ''Unknown''),
         description = Some (or_str (Option.bind (day_weather day) description) ''No description''),
         icon = or_null_str (Option.bind (day_weather day) icon),
         code = None\<rparr>,
      day_humidity = or_null (day_humidity day),
      day_wind = Some
        \<lparr>speed = Some
           \<lparr>mps = or_null (Option.bind (Option.bind (day_wind day) speed) mps),
            mph = or_null (Option.bind (Option.bind (day_wind day) speed) mph),
            kmh = or_null (Option.bind (Option.bind (day_wind day) speed) kmh)\<rparr>,
         direction = or_null (Option.bind (day_wind day) direction),
         directionText = None,
         gust = None\<rparr>,
      day_visibility = Some
        \<lparr>km = or_null (Option.bind (day_visibility day) km),
         miles = or_null (Option.bind (day_visibility day) miles)\<rparr>,
      day_uv = or_null (day_uv day),
      precipitation = or_null (precipitation day),
      sunrise = or_null_str (sunrise day),
      sunset = or_null_str (sunset day)\<rparr>"

definition getStandardizedForecast :: "Weather \<Rightarrow> Day list" where
  "getStandardizedForecast w = map getStandardizedDay (forecast w)"

definition getStandardized :: "Weather \<Rightarrow> WeatherData" where
  "getStandardized w =
     (if temperature (current w) \<noteq> None then
        \<lparr>data_location = Some (getStandardizedLocation w),
         data_current = Some (getStandardizedCurrent w),
         data_forecast = Some (getStandardizedForecast w),
         data_source = Some (source w), data_timestamp = Some (timestamp w)\<rparr>
      else if length (forecast w) > 0 then
        \<lparr>data_location = Some (getStandardizedLocation w),
         data_current = None,
         data_forecast = Some (getStandardizedForecast w),
         data_source = Some (source w), data_timestamp = Some (timestamp w)\<rparr>
      else
        \<lparr>data_location = Some (getStandardizedLocation w),
         data_current = Some (getStandardizedCurrent w),
         data_forecast = Some (getStandardizedForecast w),
         data_source = Some (source w), data_timestamp = Some (timestamp w)\<rparr>)"

definition hasValidLocation :: "Weather \<Rightarrow> bool" where
  "hasValidLocation w =
     (or_null_str (name (location w)) \<noteq> None \<and>
      (case coordinates (location w) of
         None \<Rightarrow> False
       | Some c \<Rightarrow> lat c \<noteq> None \<and> lon c \<noteq> None))"

definition hasValidCurrent :: "Weather \<Rightarrow> bool" where
  "hasValidCurrent w =
     (case temperature (current w) of None \<Rightarrow> False | Some t \<Rightarrow> celsius t \<noteq> None)"

definition isValid :: "Weather \<Rightarrow> bool" where
  "isValid w = (hasValidLocation w \<and> hasValidCurrent w)"

section \<open>The comparator (controllers/comparisonController.js, models/Weather.js)\<close>

record ComparisonResult =
  vals :: "real list"
  count :: nat
  min_value :: real
  max_value :: real
  mean :: real
  median :: real
  standardDeviation :: real
  variance :: real
  range_value :: real
  agreement :: bool

definition metric_of :: "string \<Rightarrow> Weather \<Rightarrow> num" where
  \<comment> \<open>The \<open>switch\<close> on the metric that both comparators map over the weather objects.\<close>
  "metric_of metric w =
     (let current = getStandardizedCurrent w in
      if metric = ''temperature'' then Option.bind (temperature current) celsius
      else if metric = ''humidity'' then humidity current
      else if metric = ''pressure'' then Option.bind (pressure current) hPa
      else if metric = ''windSpeed'' then Option.bind (Option.bind (wind current) speed) mph
      else None)"

definition compareMetric :: "Weather list \<Rightarrow> string \<Rightarrow> ComparisonResult option" where
  \<comment> \<open>\<open>ComparisonController.compareMetric\<close>; its median is \<^const>\<open>calculateMedian\<close>.\<close>
  "compareMetric weatherObjects metric =
     (let values = List.map_filter (metric_of metric) weatherObjects in
      if length values = 0 then None
      else
        let mean = fdiv (foldl (\<lambda>sum val. fadd sum val) 0 values) (real (length values));
            variance = fdiv (foldl (\<lambda>sum val. fadd sum (Math_pow_2 (fsub val mean))) 0 values)
                            (real (length values));
            standardDeviation = Math_sqrt variance
        in Some
          \<lparr>vals = values,
           count = length values,
           min_value = Min (set values),
           max_value = Max (set values),
           mean = round2 mean,
           median = calculateMedian values,
           standardDeviation = round2 standardDeviation,
           variance = round2 variance,
           range_value = fsub (Max (set values)) (Min (set values)),
           agreement = (standardDeviation < fmul mean (rnd (1 / 10)))\<rparr>)"

record SourceComparison =
  src_values :: "real list"
  src_count :: nat
  src_min :: real
  src_max :: real
  src_mean :: real
  src_median :: num
  src_standardDeviation :: real
  src_variance :: real

definition Weather_calculateMedian :: "real list \<Rightarrow> num" where
  \<comment> \<open>\<open>Weather.calculateMedian\<close>. It has no guard for the empty list, where the source adds
      two \<open>undefined\<close>: \<open>None\<close> is that NaN.\<close>
  "Weather_calculateMedian values =
     (let sorted = sort values;
          middle = length sorted div 2
      in if length sorted mod 2 = 0
         then (if length sorted = 0 then None
               else Some (fdiv (fadd (sorted ! (middle - 1)) (sorted ! middle)) 2))
         else Some (sorted ! middle))"

definition compareMetricAcrossSources :: "Weather list \<Rightarrow> string \<Rightarrow> SourceComparison option" where
  \<comment> \<open>\<open>Weather.compareMetricAcrossSources\<close>.\<close>
  "compareMetricAcrossSources weatherArray metric =
     (let values = List.map_filter (metric_of metric) weatherArray in
      if length values = 0 then None
      else
        let mean = fdiv (foldl (\<lambda>sum val. fadd sum val) 0 values) (real (length values));
            variance = fdiv (foldl (\<lambda>sum val. fadd sum (Math_pow_2 (fsub val mean))) 0 values)
                            (real (length values));
            standardDeviation = Math_sqrt variance
        in Some
          \<lparr>src_values = values,
           src_count = length values,
           src_min = Min (set values),
           src_max = Max (set values),
           src_mean = round2 mean,
           src_median = Weather_calculateMedian values,
           src_standardDeviation = round2 standardDeviation,
           src_variance = round2 variance\<rparr>)"


definition spec_mean :: "real list \<Rightarrow> real" where
  "spec_mean xs = fdiv (foldl fadd 0 xs) (real (length xs))"

definition spec_variance :: "real list \<Rightarrow> real" where
  "spec_variance xs =
     fdiv (foldl (\<lambda>sum x. fadd sum (fmul (fsub x (spec_mean xs)) (fsub x (spec_mean xs)))) 0 xs)
          (real (length xs))"

definition spec_median :: "real list \<Rightarrow> real" where
  "spec_median xs =
     (if odd (length xs) then sort xs ! (length xs div 2)
      else (sort xs ! (length xs div 2 - 1) + sort xs ! (length xs div 2)) / 2)"

text \<open>A weather object whose current conditions hold the four compared metrics and nothing
  else, for the scenarios.\<close>

definition reading :: "string \<Rightarrow> num \<Rightarrow> num \<Rightarrow> num \<Rightarrow> num \<Rightarrow> Weather" where
  "reading src c h p m =
     \<lparr>location = \<lparr>name = Some ''London'', country = Some ''GB'', region = None,
                   coordinates = Some \<lparr>lat = Some (515 / 10), lon = Some (- 1 / 10)\<rparr>,
                   timezone = None\<rparr>,
      current = \<lparr>temperature = Some \<lparr>celsius = c, fahrenheit = None, feelsLike = None\<rparr>,
                 humidity = h,
                 pressure = Some \<lparr>hPa = p, inHg = None\<rparr>,
                 visibility = None,
                 wind = Some \<lparr>speed = Some \<lparr>mps = None, mph = m, kmh = None\<rparr>,
                              direction = None, directionText = None, gust = None\<rparr>,
                 weather = None, clouds = None, uv = None, airQuality = None\<rparr>,
      forecast = [],
      source = src,
      timestamp = ''2024-01-01T00:00:00.000Z''\<rparr>"

section \<open>Wind speed in the provider adapters (services/*Service.js)\<close>

text \<open>
  The objects that hold a wind speed in the records of the adapters, as functions of the
  numbers read from the provider's payload: \<open>wind.speed\<close> in
  \<open>transformCurrentWeatherData\<close> and in the days of \<open>transformForecastData\<close>, and
  \<open>wind.gust\<close>. A component that the adapter does not write is \<open>None\<close>.
\<close>

definition OpenWeather_wind_speed :: "real \<Rightarrow> Speed" where
  \<comment> \<open>The argument is \<open>data.wind.speed\<close>, in metres per second.\<close>
  "OpenWeather_wind_speed wind_speed =
     \<lparr>mps = Some wind_speed,
      mph = Some (fdiv (Math_round (fmul (fmul wind_speed (rnd (2237 / 1000))) 100)) 100),
      kmh = Some (fdiv (Math_round (fmul (fmul wind_speed (rnd (36 / 10))) 100)) 100)\<rparr>"

definition OpenWeather_wind_gust :: "real \<Rightarrow> Speed" where
  \<comment> \<open>The argument is \<open>data.wind.gust\<close>, when it is there and not 0.\<close>
  "OpenWeather_wind_gust wind_gust =
     \<lparr>mps = Some wind_gust,
      mph = Some (fdiv (Math_round (fmul (fmul wind_gust (rnd (2237 / 1000))) 100)) 100),
      kmh = None\<rparr>"

definition OpenWeather_forecast_wind_speed :: "real \<Rightarrow> Speed" where
  \<comment> \<open>The argument is \<open>item.wind.speed\<close> of the first item of the day.\<close>
  "OpenWeather_forecast_wind_speed wind_speed =
     \<lparr>mps = Some wind_speed,
      mph = Some (fdiv (Math_round (fmul (fmul wind_speed (rnd (2237 / 1000))) 100)) 100),
      kmh = None\<rparr>"

definition WeatherApi_wind_speed :: "real \<Rightarrow> real \<Rightarrow> Speed" where
  \<comment> \<open>The arguments are \<open>current.wind_mph\<close> and \<open>current.wind_kph\<close>.\<close>
  "WeatherApi_wind_speed wind_mph wind_kph =
     \<lparr>mps = Some (fdiv (Math_round (fmul (fdiv wind_kph (rnd (36 / 10))) 100)) 100),
      mph = Some wind_mph,
      kmh = Some wind_kph\<rparr>"

definition WeatherApi_wind_gust :: "real \<Rightarrow> real \<Rightarrow> Speed" where
  \<comment> \<open>The arguments are \<open>current.gust_mph\<close> and \<open>current.gust_kph\<close>.\<close>
  "WeatherApi_wind_gust gust_mph gust_kph =
     \<lparr>mps = None, mph = Some gust_mph, kmh = Some gust_kph\<rparr>"

definition WeatherApi_forecast_wind_speed :: "real \<Rightarrow> real \<Rightarrow> Speed" where
  \<comment> \<open>The arguments are \<open>day.day.maxwind_mph\<close> and \<open>day.day.maxwind_kph\<close>.\<close>
  "WeatherApi_forecast_wind_speed maxwind_mph maxwind_kph =
     \<lparr>mps = Some (fdiv (Math_round (fmul (fdiv maxwind_kph (rnd (36 / 10))) 100)) 100),
      mph = Some maxwind_mph,
      kmh = Some maxwind_kph\<rparr>"

definition AccuWeather_wind_speed :: "real \<Rightarrow> real \<Rightarrow> Speed" where
  \<comment> \<open>The arguments are \<open>wind.Speed.Metric.Value\<close> and \<open>wind.Speed.Imperial.Value\<close>.\<close>
  "AccuWeather_wind_speed metric_value imperial_value =
     \<lparr>mps = Some (fdiv (Math_round (fmul (fdiv metric_value (rnd (36 / 10))) 100)) 100),
      mph = Some imperial_value,
      kmh = Some metric_value\<rparr>"

definition AccuWeather_forecast_wind :: "Wind option" where
  \<comment> \<open>The days of \<open>transformForecastData\<close> in the AccuWeather service have no \<open>wind\<close>
      property.\<close>
  "AccuWeather_forecast_wind = None"

text \<open>The relation of the specification between the two metric wind speeds of a record:
  \<open>mps\<close> is the two-decimal number nearest to \<open>kmh / 3.6\<close>, a tie going up.\<close>

definition spec_mps_from_kmh :: "Speed \<Rightarrow> bool" where
  "spec_mps_from_kmh s =
     (case mps s of
        None \<Rightarrow> False
      | Some m \<Rightarrow>
          (case kmh s of
             None \<Rightarrow> False
           | Some k \<Rightarrow> m = rnd (of_int \<lfloor>k / (36 / 10) * 100 + 1 / 2\<rfloor> / 100)))"

section \<open>The circuit breaker of a provider service (services/*Service.js)\<close>

text \<open>
  \<open>getCurrentWeather\<close> has the same body in the three services, but for the messages of
  its errors and for the lookup of the location key, which only the AccuWeather service makes.
  Its collaborators are seen through the answers they give during one call: the two readings
  of the clock, the cache lookup, the lookup of the location key, the request, the
  transformation of the response, and the cache store. An error thrown by a collaborator is
  the message that the \<open>catch\<close> block reads from it. The result of a call is \<open>Inl\<close> of the
  message of the error that it throws, or \<open>Inr\<close> of the data that it returns. The effects
  of a call are listed in the order they happen; \<open>loggerService.logQuery\<close> catches its own
  errors, so that a log entry is an effect and nothing else.
\<close>

datatype Provider = OpenWeatherMap | WeatherAPI | AccuWeather

datatype BreakerState = CLOSED | OPEN | HALF_OPEN

record CircuitBreaker =
  failures :: nat
  lastFailureTime :: "int option"
  state :: BreakerState

datatype Effect = CacheGet | HttpGet | CacheSet | LogQuery string

datatype KeyLookup =
    KeyCached \<comment> \<open>the location is in \<open>locationCache\<close>\<close>
  | KeyFound \<comment> \<open>the location search is answered with a location\<close>
  | KeyFails string \<comment> \<open>the location search throws, or is answered with no location\<close>

record 'a Call =
  time_of_call :: int
  time_of_failure :: int
  getCachedWeather :: "string + 'a option"
  getLocationKey :: KeyLookup
  request :: "string option"
  transformCurrentWeatherData :: "string + 'a"
  setCachedWeather :: "string option"



definition error_prefix :: "Provider \<Rightarrow> string" where
  "error_prefix p =
     (case p of
        OpenWeatherMap \<Rightarrow> ''OpenWeatherMap API error: ''
      | WeatherAPI \<Rightarrow> ''WeatherAPI error: ''
      | AccuWeather \<Rightarrow> ''AccuWeather API error: '')"



definition on_failure :: "int \<Rightarrow> CircuitBreaker \<Rightarrow> CircuitBreaker" where
  \<comment> \<open>The update of the breaker in the \<open>catch\<close> block.\<close>
  "on_failure now cb =
     (let cb' = cb\<lparr>failures := failures cb + 1, lastFailureTime := Some now\<rparr>
      in if failures cb' \<ge> 5 then cb'\<lparr>state := OPEN\<rparr> else cb')"

definition catch_block ::
  "Provider \<Rightarrow> 'a Call \<Rightarrow> CircuitBreaker \<Rightarrow> Effect list \<Rightarrow> string \<Rightarrow> string
   \<Rightarrow> (string + 'a) \<times> Effect list \<times> CircuitBreaker" where
  \<comment> \<open>The \<open>catch\<close> block, entered after the effects \<open>effects\<close> with the variable \<open>status\<close> as it
      is then (\<open>queryStatus\<close>), on an error with the message \<open>errorMessage\<close>.\<close>
  "catch_block p call cb effects queryStatus errorMessage =
     (Inl (error_prefix p @ errorMessage), effects @ [LogQuery queryStatus],
      on_failure (time_of_failure call) cb)"











section \<open>Location cleaning (controllers/weatherController.js, config/apis.js)\<close>

text \<open>
  Strings are lists of 8-bit characters. The character classes are those of the source's
  regular expressions; under the flag \<open>i\<close> a class of capitals also holds the small letters.
\<close>

definition upper_letter :: "char \<Rightarrow> bool" where
  "upper_letter c = (c \<in> set ''ABCDEFGHIJKLMNOPQRSTUVWXYZ'')"

definition lower_letter :: "char \<Rightarrow> bool" where
  "lower_letter c = (c \<in> set ''abcdefghijklmnopqrstuvwxyz'')"

definition digit :: "char \<Rightarrow> bool" where
  "digit c = (c \<in> set ''0123456789'')"

definition whitespace :: "char \<Rightarrow> bool" where
  \<comment> \<open>\<open>\s\<close>, and what \<open>trim\<close> removes: tab, line feed, vertical tab, form feed, carriage
      return, space and no-break space.\<close>
  "whitespace c = (c \<in> {CHR 0x09, CHR 0x0A, CHR 0x0B, CHR 0x0C, CHR 0x0D, CHR 0x20, CHR 0xA0})"

definition toUpperCase_char :: "char \<Rightarrow> char" where
  "toUpperCase_char c =
     (case map_of (zip ''abcdefghijklmnopqrstuvwxyz'' ''ABCDEFGHIJKLMNOPQRSTUVWXYZ'') c of
        None \<Rightarrow> c | Some u \<Rightarrow> u)"

definition toUpperCase :: "string \<Rightarrow> string" where
  \<comment> \<open>On ASCII letters; the source applies it to matches of the postcode pattern only.\<close>
  "toUpperCase s = map toUpperCase_char s"

definition trim :: "string \<Rightarrow> string" where
  "trim s = rev (dropWhile whitespace (rev (dropWhile whitespace s)))"

function collapse_whitespace :: "string \<Rightarrow> string" where
  \<comment> \<open>\<open>s.replace(/\s+/g, ' ')\<close>.\<close>
  "collapse_whitespace [] = []"
| "collapse_whitespace (c # cs) =
     (if whitespace c then CHR '' '' # collapse_whitespace (dropWhile whitespace cs)
      else c # collapse_whitespace cs)"
  by pat_completeness auto
termination
  by (relation "measure length") (auto simp: le_imp_less_Suc length_dropWhile_le)

text \<open>
  \<open>ukConfig.postcodeRegex\<close> is
  \<^verbatim>\<open>/^[A-Z]{1,2}[0-9R][0-9A-Z]? [0-9][ABD-HJLNP-UW-Z]{2}$/i\<close>.
  The recognizer reads it from the left; where the expression may take one character more or
  less, both ways are tried.
\<close>

definition class_A_Z :: "char \<Rightarrow> bool" where
  "class_A_Z c = (upper_letter c \<or> lower_letter c)"

definition class_0_9R :: "char \<Rightarrow> bool" where
  "class_0_9R c = (digit c \<or> c = CHR ''R'' \<or> c = CHR ''r'')"

definition class_0_9A_Z :: "char \<Rightarrow> bool" where
  "class_0_9A_Z c = (digit c \<or> class_A_Z c)"

definition class_ABD_HJLNP_UW_Z :: "char \<Rightarrow> bool" where
  "class_ABD_HJLNP_UW_Z c =
     (c \<in> set ''ABDEFGHJLNPQRSTUWXYZ'' \<or> c \<in> set ''abdefghjlnpqrstuwxyz'')"

fun match_inward :: "string \<Rightarrow> bool" where
  \<comment> \<open>\<^verbatim>\<open> [0-9][ABD-HJLNP-UW-Z]{2}$\<close>\<close>
  "match_inward [s, d, u, v] =
     (s = CHR '' '' \<and> digit d \<and> class_ABD_HJLNP_UW_Z u \<and> class_ABD_HJLNP_UW_Z v)"
| "match_inward _ = False"

fun match_district :: "string \<Rightarrow> bool" where
  \<comment> \<open>\<^verbatim>\<open>[0-9R][0-9A-Z]?\<close> and the rest\<close>
  "match_district [] = False"
| "match_district (c # cs) =
     (class_0_9R c \<and>
      ((case cs of [] \<Rightarrow> False | x # xs \<Rightarrow> class_0_9A_Z x \<and> match_inward xs) \<or> match_inward cs))"

fun postcodeRegex_test :: "string \<Rightarrow> bool" where
  \<comment> \<open>\<^verbatim>\<open>^[A-Z]{1,2}\<close> and the rest\<close>
  "postcodeRegex_test [] = False"
| "postcodeRegex_test (a # cs) =
     (class_A_Z a \<and>
      ((case cs of [] \<Rightarrow> False | b # cs' \<Rightarrow> class_A_Z b \<and> match_district cs') \<or> match_district cs))"

definition postcodeAreas :: "(string \<times> string) list" where
  \<comment> \<open>The object literal of \<open>getNearbyCityForPostcode\<close>, in its order, read with \<^const>\<open>map_of\<close>.
      It has the key \<open>SY\<close> twice, with one value.\<close>
  "postcodeAreas =
     [
      (''E'', ''London''), (''EC'', ''London''), (''N'', ''London''),
      (''NW'', ''London''), (''SE'', ''London''), (''SW'', ''London''),
      (''W'', ''London''), (''WC'', ''London''), (''B'', ''Birmingham''),
      (''M'', ''Manchester''), (''L'', ''Liverpool''), (''LS'', ''Leeds''),
      (''S'', ''Sheffield''), (''NG'', ''Nottingham''), (''LE'', ''Leicester''),
      (''CV'', ''Coventry''), (''DE'', ''Derby''), (''DN'', ''Doncaster''),
      (''HD'', ''Huddersfield''), (''HU'', ''Hull''), (''NE'', ''Newcastle''),
      (''SR'', ''Sunderland''), (''TS'', ''Middlesbrough''), (''YO'', ''York''),
      (''BD'', ''Bradford''), (''HG'', ''Harrogate''), (''WF'', ''Wakefield''),
      (''OL'', ''Oldham''), (''SK'', ''Stockport''), (''WA'', ''Warrington''),
      (''WN'', ''Wigan''), (''BL'', ''Bolton''), (''BB'', ''Blackburn''),
      (''PR'', ''Preston''), (''FY'', ''Blackpool''), (''LA'', ''Lancaster''),
      (''CA'', ''Carlisle''), (''DL'', ''Darlington''), (''DH'', ''Durham''),
      (''NR'', ''Norwich''), (''IP'', ''Ipswich''), (''CB'', ''Cambridge''),
      (''PE'', ''Peterborough''), (''NN'', ''Northampton''), (''MK'', ''Milton Keynes''),
      (''LU'', ''Luton''), (''AL'', ''St Albans''), (''HP'', ''Hemel Hempstead''),
      (''SL'', ''Slough''), (''RG'', ''Reading''), (''OX'', ''Oxford''),
      (''SN'', ''Swindon''), (''BA'', ''Bath''), (''BS'', ''Bristol''),
      (''GL'', ''Gloucester''), (''HR'', ''Hereford''), (''WR'', ''Worcester''),
      (''DY'', ''Dudley''), (''WV'', ''Wolverhampton''), (''WS'', ''Walsall''),
      (''ST'', ''Stoke-on-Trent''), (''TF'', ''Telford''), (''SY'', ''Shrewsbury''),
      (''CH'', ''Chester''), (''CW'', ''Crewe''), (''CF'', ''Cardiff''),
      (''NP'', ''Newport''), (''SA'', ''Swansea''), (''LD'', ''Llandrindod Wells''),
      (''SY'', ''Shrewsbury''), (''LL'', ''Llandudno''), (''AB'', ''Aberdeen''),
      (''DD'', ''Dundee''), (''EH'', ''Edinburgh''), (''FK'', ''Falkirk''),
      (''G'', ''Glasgow''), (''IV'', ''Inverness''), (''KA'', ''Kilmarnock''),
      (''KY'', ''Kirkcaldy''), (''ML'', ''Motherwell''), (''PA'', ''Paisley''),
      (''PH'', ''Perth''), (''BT'', ''Belfast'')]"

definition match_area :: "string \<Rightarrow> string option" where
  \<comment> \<open>\<^verbatim>\<open>postcode.match(/^([A-Z]{1,2})/)?.[1]\<close>: one capital, or two when the second
      character is a capital too.\<close>
  "match_area postcode =
     (case postcode of
        [] \<Rightarrow> None
      | a # cs \<Rightarrow>
          if upper_letter a then
            (case cs of
               [] \<Rightarrow> Some [a]
             | b # cs' \<Rightarrow> if upper_letter b then Some [a, b] else Some [a])
          else None)"

definition match_digits :: "string \<Rightarrow> string option" where
  \<comment> \<open>\<^verbatim>\<open>[0-9]{1,2}\<close> at the head of a string.\<close>
  "match_digits s =
     (case s of
        [] \<Rightarrow> None
      | d # ds \<Rightarrow>
          if digit d then
            (case ds of
               [] \<Rightarrow> Some [d]
             | e # es \<Rightarrow> if digit e then Some [d, e] else Some [d])
          else None)"

definition match_longerArea :: "string \<Rightarrow> string option" where
  \<comment> \<open>\<^verbatim>\<open>postcode.match(/^([A-Z]{1,2}[0-9]{1,2})/)?.[1]\<close>: two capitals and the digits
      after them, else one capital and the digits after it.\<close>
  "match_longerArea postcode =
     (case postcode of
        [] \<Rightarrow> None
      | a # cs \<Rightarrow>
          if upper_letter a then
            (case (case cs of
                     [] \<Rightarrow> None
                   | b # cs' \<Rightarrow>
                       if upper_letter b then map_option (\<lambda>ds. a # b # ds) (match_digits cs')
                       else None) of
               Some m \<Rightarrow> Some m
             | None \<Rightarrow> map_option (\<lambda>ds. a # ds) (match_digits cs))
          else None)"

definition getNearbyCityForPostcode :: "string \<Rightarrow> string" where
  "getNearbyCityForPostcode postcode =
     (case Option.bind (match_area postcode) (map_of postcodeAreas) of
        Some city \<Rightarrow> city
      | None \<Rightarrow>
          (case Option.bind (match_longerArea postcode) (map_of postcodeAreas) of
             Some city \<Rightarrow> city
           | None \<Rightarrow> ''United Kingdom''))"

definition cleanLocation :: "string \<Rightarrow> string + string" where
  \<comment> \<open>\<open>Inl\<close> is the message of the error thrown.\<close>
  "cleanLocation loc =
     (if loc = [] then Inl ''Location is required''
      else
        let cleaned = trim loc in
        if postcodeRegex_test cleaned then
          let cleaned = collapse_whitespace (toUpperCase cleaned);
              cleaned = (if length cleaned > 3 \<and> CHR '' '' \<notin> set cleaned
                         then take (length cleaned - 3) cleaned @ '' '' @ drop (length cleaned - 3) cleaned
                         else cleaned)
          in Inr (getNearbyCityForPostcode cleaned)
        else
          let cleaned = take 100 (collapse_whitespace cleaned) in
          if length cleaned < 2 then Inl ''Location must be at least 2 characters long''
          else Inr cleaned)"

text \<open>The area of a postcode in the words of the specification: its leading letters, two
  at most.\<close>

definition spec_area_prefix :: "string \<Rightarrow> string" where
  "spec_area_prefix postcode = takeWhile upper_letter (take 2 postcode)"

section \<open>The aggregation of the current weather (controllers/comparisonController.js)\<close>

text \<open>
  A provider service is seen through what it answers during one request: \<open>isAvailable()\<close>,
  and the outcome of \<open>getCurrentWeather\<close> at the cleaned location (\<open>cleanLocation\<close> in the source), a thrown error being
  \<open>Throws\<close> of its message. A JavaScript object used as a dictionary is the list of its
  entries in insertion order.
\<close>

datatype Outcome = Throws string | Returns WeatherData

record Service =
  isAvailable :: bool
  currentWeather :: "string \<Rightarrow> Outcome"

record ResultEntry =
  entry_data :: WeatherData
  entry_success :: bool
  entry_source :: string

type_synonym Results = "(string \<times> ResultEntry) list"
type_synonym Errors = "(string \<times> string) list"

fun assign :: "string \<Rightarrow> 'v \<Rightarrow> (string \<times> 'v) list \<Rightarrow> (string \<times> 'v) list" where
  \<comment> \<open>\<open>object[key] = value\<close>.\<close>
  "assign k v [] = [(k, v)]"
| "assign k v ((k', v') # kvs) = (if k' = k then (k, v) # kvs else (k', v') # assign k v kvs)"

definition services :: "Service \<Rightarrow> Service \<Rightarrow> Service \<Rightarrow> (string \<times> Service) list" where
  "services openWeatherService weatherApiService accuWeatherService =
     [(''OpenWeatherMap'', openWeatherService),
      (''WeatherAPI'', weatherApiService),
      (''AccuWeather'', accuWeatherService)]"

definition fetch :: "string \<Rightarrow> string \<Rightarrow> Results \<times> Errors \<Rightarrow> string \<times> Service \<Rightarrow> Results \<times> Errors" where
  \<comment> \<open>The asynchronous function mapped over the services, as the update of \<open>results\<close> and
      \<open>errors\<close> that it makes when it settles.\<close>
  "fetch now cleanedLocation acc entry =
     (case acc of (results, errors) \<Rightarrow>
      case entry of (serviceName, service) \<Rightarrow>
        if \<not> isAvailable service then
          (results, assign serviceName ''Service not available (API key not configured)'' errors)
        else
          (case currentWeather service cleanedLocation of
             Throws message \<Rightarrow> (results, assign serviceName message errors)
           | Returns data \<Rightarrow>
               let weather = new_Weather now data in
               if isValid weather then
                 (assign serviceName
                    \<lparr>entry_data = getStandardized weather, entry_success = True, entry_source = serviceName\<rparr>
                    results,
                  errors)
               else (results, assign serviceName ''Invalid weather data received'' errors)))"

record Sources =
  sources_successful :: nat
  sources_failed :: nat
  sources_total :: nat

record Comparison =
  comparison_success :: bool
  comparison_location :: string
  comparison_sources :: Sources
  comparison_results :: Results
  comparison_errors :: "Errors option"

datatype Response =
    Status400 string
  | Status503 string Errors
  | Status200 Comparison

definition compareCurrentWeather ::
  "string \<Rightarrow> string \<Rightarrow> Service \<Rightarrow> Service \<Rightarrow> Service \<Rightarrow> (string \<times> Service) list \<Rightarrow> Response" where
  \<comment> \<open>\<open>settled\<close> lists the available services in the order in which their calls settle;
      the unavailable ones write their error before any call is made. The fields
      \<open>comparison\<close> and \<open>accuracy\<close> of the response, computed from \<open>results\<close>, and the
      two times are left out.\<close>
  "compareCurrentWeather now loc openWeatherService weatherApiService accuWeatherService settled =
     (let cleanedLocation = trim loc in
      if cleanedLocation = [] then Status400 ''Location required''
      else
        let services = services openWeatherService weatherApiService accuWeatherService;
            (results, errors) =
               foldl (fetch now cleanedLocation) ([], [])
                 (filter (\<lambda>entry. \<not> isAvailable (snd entry)) services @ settled);
            successCount = length results;
            errorCount = length errors
        in if successCount = 0 then Status503 ''No weather data available'' errors
           else Status200
             \<lparr>comparison_success = True,
              comparison_location = cleanedLocation,
              comparison_sources =
                \<lparr>sources_successful = successCount, sources_failed = errorCount,
                 sources_total = length services\<rparr>,
              comparison_results = results,
              comparison_errors = (if errorCount > 0 then Some errors else None)\<rparr>)"

text \<open>The words of the specification: a provider succeeds when it is available and returns
  data that make a valid weather record.\<close>

definition spec_succeeds :: "string \<Rightarrow> string \<Rightarrow> Service \<Rightarrow> bool" where
  "spec_succeeds now cleanedLocation service =
     (isAvailable service \<and>
      (case currentWeather service cleanedLocation of
         Throws message \<Rightarrow> False
       | Returns data \<Rightarrow> isValid (new_Weather now data)))"

definition spec_succeeding :: "string \<Rightarrow> string \<Rightarrow> (string \<times> Service) list \<Rightarrow> string set" where
  "spec_succeeding now cleanedLocation svcs =
     {n. \<exists>s. (n, s) \<in> set svcs \<and> spec_succeeds now cleanedLocation s}"

definition spec_failing :: "string \<Rightarrow> string \<Rightarrow> (string \<times> Service) list \<Rightarrow> string set" where
  "spec_failing now cleanedLocation svcs =
     {n. \<exists>s. (n, s) \<in> set svcs \<and> \<not> spec_succeeds now cleanedLocation s}"

text \<open>Two services for the scenarios, and the data of a valid record.\<close>

definition answering :: "WeatherData \<Rightarrow> Service" where
  "answering d = \<lparr>isAvailable = True, currentWeather = (\<lambda>cleanedLocation. Returns d)\<rparr>"

definition throwing :: "string \<Rightarrow> Service" where
  "throwing message = \<lparr>isAvailable = True, currentWeather = (\<lambda>cleanedLocation. Throws message)\<rparr>"

definition observation :: "string \<Rightarrow> real \<Rightarrow> WeatherData" where
  "observation src c =
     \<lparr>data_location = Some (location (reading src (Some c) None None None)),
      data_current = Some (current (reading src (Some c) None None None)),
      data_forecast = None, data_source = Some src, data_timestamp = None\<rparr>"

section \<open>The aggregation of the current weather (controllers/weatherController.js)\<close>

text \<open>
  \<open>WeatherController.getAllCurrentWeather\<close> runs the same calls and collects their outcomes
  in two arrays. Its location has passed the validation rules of the route and goes through
  \<^const>\<open>cleanLocation\<close>; the field \<open>comparison\<close> of the response and the time are left out.
\<close>

record ApiResult =
  result_source :: string
  result_data :: WeatherData
  result_success :: bool

record ApiError =
  error_source :: string
  error_message :: string

definition fetch_all ::
  "string \<Rightarrow> string \<Rightarrow> ApiResult list \<times> ApiError list \<Rightarrow> string \<times> Service
   \<Rightarrow> ApiResult list \<times> ApiError list" where
  \<comment> \<open>The asynchronous function mapped over the services, as the \<open>push\<close> that it makes
      when it settles.\<close>
  "fetch_all now cleanedLocation acc entry =
     (case acc of (results, apiErrors) \<Rightarrow>
      case entry of (serviceName, service) \<Rightarrow>
        if \<not> isAvailable service then
          (results,
           apiErrors @ [\<lparr>error_source = serviceName,
                          error_message = ''Service not available (API key not configured)''\<rparr>])
        else
          (case currentWeather service cleanedLocation of
             Throws message \<Rightarrow>
               (results, apiErrors @ [\<lparr>error_source = serviceName, error_message = message\<rparr>])
           | Returns data \<Rightarrow>
               let weather = new_Weather now data in
               if isValid weather then
                 (results @ [\<lparr>result_source = serviceName, result_data = getStandardized weather,
                               result_success = True\<rparr>],
                  apiErrors)
               else
                 (results,
                  apiErrors @ [\<lparr>error_source = serviceName,
                                 error_message = ''Invalid weather data received''\<rparr>])))"

record AllWeather =
  all_success :: bool
  all_location :: string
  all_results :: "ApiResult list"
  all_errors :: "ApiError list option"
  totalSources :: nat
  successfulSources :: nat
  failedSources :: nat

datatype AllResponse =
    Thrown string
  | AllStatus503 string "ApiError list"
  | AllStatus200 AllWeather

definition getAllCurrentWeather ::
  "string \<Rightarrow> string \<Rightarrow> Service \<Rightarrow> Service \<Rightarrow> Service \<Rightarrow> (string \<times> Service) list \<Rightarrow> AllResponse" where
  \<comment> \<open>\<open>Thrown\<close> is the error of \<^const>\<open>cleanLocation\<close>, which the handler passes on before any
      service is called; \<open>settled\<close> is as in \<^const>\<open>compareCurrentWeather\<close>.\<close>
  "getAllCurrentWeather now loc openWeatherService weatherApiService accuWeatherService settled =
     (case cleanLocation loc of
        Inl message \<Rightarrow> Thrown message
      | Inr cleanedLocation \<Rightarrow>
          let services = services openWeatherService weatherApiService accuWeatherService;
              (results, apiErrors) =
                 foldl (fetch_all now cleanedLocation) ([], [])
                   (filter (\<lambda>entry. \<not> isAvailable (snd entry)) services @ settled)
          in if length results = 0 then AllStatus503 ''No weather data available'' apiErrors
             else AllStatus200
               \<lparr>all_success = True,
                all_location = cleanedLocation,
                all_results = results,
                all_errors = (if length apiErrors > 0 then Some apiErrors else None),
                totalSources = length services,
                successfulSources = length results,
                failedSources = length apiErrors\<rparr>)"

section \<open>Properties of the rounding to doubles\<close>

lemma pow2_powr: "pow2 e = 2 powr (of_int e)"
  unfolding pow2_def by (simp add: powr_int)

lemma pow2_pos [simp]: "0 < pow2 e"
  by (simp add: pow2_powr)

lemma pow2_neq0 [simp]: "pow2 e \<noteq> 0"
  using pow2_pos[of e] by linarith

lemma pow2_add: "pow2 (a + b) = pow2 a * pow2 b"
  by (simp add: pow2_powr powr_add)

lemma pow2_mono: "a \<le> b \<Longrightarrow> pow2 a \<le> pow2 b"
  by (simp add: pow2_powr)

lemma pow2_0 [simp]: "pow2 0 = 1"
  by (simp add: pow2_def)

lemma pow2_1 [simp]: "pow2 1 = 2"
  by (simp add: pow2_def)

lemma pow2_Suc: "pow2 (e + 1) = pow2 e * 2"
  using pow2_add[of e 1] by simp

lemma pow2_pred: "pow2 (e - 1) = pow2 e / 2"
  using pow2_Suc[of "e - 1"] by simp

lemma expo_bounds:
  assumes "x \<noteq> 0"
  shows "pow2 (expo x) \<le> \<bar>x\<bar>" and "\<bar>x\<bar> < pow2 (expo x + 1)"
proof -
  have pos: "0 < \<bar>x\<bar>" using assms by simp
  have "of_int (expo x) \<le> log 2 \<bar>x\<bar>" unfolding expo_def using assms by simp
  then show "pow2 (expo x) \<le> \<bar>x\<bar>"
    unfolding pow2_powr using pos by (simp add: le_log_iff)
  have "log 2 \<bar>x\<bar> < of_int (expo x + 1)" unfolding expo_def using assms by (simp; linarith)
  then show "\<bar>x\<bar> < pow2 (expo x + 1)"
    unfolding pow2_powr using pos by (simp add: log_less_iff)
qed

lemma expo_eq:
  assumes "pow2 e \<le> \<bar>x\<bar>" and "\<bar>x\<bar> < pow2 (e + 1)"
  shows "expo x = e"
proof -
  have pos: "0 < \<bar>x\<bar>" using assms(1) pow2_pos[of e] by linarith
  have "of_int e \<le> log 2 \<bar>x\<bar>"
    using assms(1) pos unfolding pow2_powr by (simp add: le_log_iff)
  moreover have "log 2 \<bar>x\<bar> < of_int e + 1"
    using assms(2) pos unfolding pow2_powr by (simp add: log_less_iff)
  ultimately show ?thesis unfolding expo_def using pos by (simp; linarith)
qed

lemma expo_code [code]:
  "expo x = (if x = 0 then 0
             else if 2 \<le> \<bar>x\<bar> then expo (x / 2) + 1
             else if \<bar>x\<bar> < 1 then expo (x * 2) - 1
             else 0)"
proof -
  consider "x = 0" | "x \<noteq> 0" "2 \<le> \<bar>x\<bar>" | "x \<noteq> 0" "\<bar>x\<bar> < 1" | "1 \<le> \<bar>x\<bar>" "\<bar>x\<bar> < 2" by linarith
  then show ?thesis
  proof cases
    case 1 then show ?thesis by (simp add: expo_def)
  next
    case 2
    have "expo x = expo (x / 2) + 1"
    proof (rule expo_eq)
      have h: "x / 2 \<noteq> 0" using 2 by simp
      show "pow2 (expo (x / 2) + 1) \<le> \<bar>x\<bar>"
        using expo_bounds(1)[OF h] by (simp add: pow2_Suc)
      show "\<bar>x\<bar> < pow2 (expo (x / 2) + 1 + 1)"
        using expo_bounds(2)[OF h] pow2_Suc[of "expo (x / 2) + 1"] by simp
    qed
    then show ?thesis using 2 by simp
  next
    case 3
    have "expo x = expo (x * 2) - 1"
    proof (rule expo_eq)
      have h: "x * 2 \<noteq> 0" using 3 by simp
      show "pow2 (expo (x * 2) - 1) \<le> \<bar>x\<bar>"
        using expo_bounds(1)[OF h] by (simp add: pow2_pred)
      show "\<bar>x\<bar> < pow2 (expo (x * 2) - 1 + 1)"
        using expo_bounds(2)[OF h] by (simp add: pow2_Suc abs_mult)
    qed
    then show ?thesis using 3 by simp
  next
    case 4
    have "expo x = 0" by (rule expo_eq) (use 4 in simp_all)
    then show ?thesis using 4 by auto
  qed
qed


lemma rhe_of_int [simp]: "rhe (of_int k) = k"
  by (simp add: rhe_def)

lemma rhe_0 [simp]: "rhe 0 = 0"
  using rhe_of_int[of 0] by simp

lemma rhe_numeral [simp]: "rhe (numeral n) = numeral n"
  using rhe_of_int[of "numeral n"] by simp

lemma rhe_eq:
  assumes "of_int m - 1 / 2 < y" and "y < of_int m + 1 / 2"
  shows "rhe y = m"
proof (cases "of_int m \<le> y")
  case True
  then have f: "\<lfloor>y\<rfloor> = m" using assms by (simp add: floor_eq_iff)
  show ?thesis unfolding rhe_def Let_def f using assms by simp
next
  case False
  then have f: "\<lfloor>y\<rfloor> = m - 1" using assms by (simp add: floor_eq_iff)
  show ?thesis unfolding rhe_def Let_def f using assms False by simp
qed

lemma rhe_tie:
  assumes "y = of_int m + 1 / 2"
  shows "rhe y = (if even m then m else m + 1)"
proof -
  have f: "\<lfloor>y\<rfloor> = m" using assms by (simp add: floor_eq_iff)
  show ?thesis unfolding rhe_def Let_def f using assms by simp
qed

lemma rhe_close: "\<bar>of_int (rhe y) - y\<bar> \<le> 1 / 2"
proof -
  have lo: "of_int \<lfloor>y\<rfloor> \<le> y" and hi: "y < of_int \<lfloor>y\<rfloor> + 1" by linarith+
  show ?thesis unfolding rhe_def Let_def using lo hi by (auto simp: abs_if; linarith)
qed

lemma rhe_mono:
  assumes "x \<le> y"
  shows "rhe x \<le> rhe y"
proof (cases "\<lfloor>x\<rfloor> = \<lfloor>y\<rfloor>")
  case True
  show ?thesis unfolding rhe_def Let_def True using assms by auto
next
  case False
  then have lt: "\<lfloor>x\<rfloor> + 1 \<le> \<lfloor>y\<rfloor>" using floor_mono[OF assms] by linarith
  have "rhe x \<le> \<lfloor>x\<rfloor> + 1" unfolding rhe_def Let_def by auto
  moreover have "\<lfloor>y\<rfloor> \<le> rhe y" unfolding rhe_def Let_def by auto
  ultimately show ?thesis using lt by linarith
qed

lemma rhe_minus: "rhe (- y) = - rhe y"
proof (cases "y = of_int \<lfloor>y\<rfloor>")
  case True
  then obtain k where y: "y = of_int k" ..
  have "rhe (of_int (- k)) = - k" by (rule rhe_of_int)
  then show ?thesis unfolding y by simp
next
  case False
  define f where "f = \<lfloor>y\<rfloor>"
  have lo: "of_int f < y" and hi: "y < of_int f + 1"
    using False unfolding f_def by linarith+
  have fm: "\<lfloor>- y\<rfloor> = - f - 1"
    using lo hi by (simp add: floor_eq_iff)
  consider "y - of_int f < 1 / 2" | "1 / 2 < y - of_int f" | "y = of_int f + 1 / 2" by linarith
  then show ?thesis
  proof cases
    case 1
    have a: "rhe y = f" by (rule rhe_eq) (use 1 lo in simp_all)
    have b: "rhe (- y) = - f" by (rule rhe_eq) (use 1 lo in simp_all)
    show ?thesis using a b by simp
  next
    case 2
    have a: "rhe y = f + 1" by (rule rhe_eq) (use 2 hi in simp_all)
    have b: "rhe (- y) = - (f + 1)" by (rule rhe_eq) (use 2 hi in simp_all)
    show ?thesis using a b by simp
  next
    case 3
    have a: "rhe y = (if even f then f else f + 1)" by (rule rhe_tie) (rule 3)
    have "- y = of_int (- f - 1) + 1 / 2" using 3 by simp
    from rhe_tie[OF this] have b: "rhe (- y) = (if even (- f - 1) then - f - 1 else - f - 1 + 1)" .
    show ?thesis unfolding a b by auto
  qed
qed

lemma expo_minus [simp]: "expo (- x) = expo x"
  by (simp add: expo_def)

lemma expo_mono:
  assumes "0 < x" and "x \<le> y"
  shows "expo x \<le> expo y"
proof -
  have "log 2 x \<le> log 2 y" using assms by simp
  then show ?thesis using assms unfolding expo_def by (simp add: floor_mono)
qed

lemma rnd_0 [simp]: "rnd 0 = 0"
  by (simp add: rnd_def)

lemma rnd_minus: "rnd (- x) = - rnd x"
  by (simp add: rnd_def Let_def rhe_minus)

lemma rnd_nonneg: "0 \<le> x \<Longrightarrow> 0 \<le> rnd x"
  unfolding rnd_def Let_def
  using rhe_mono[of 0 "x / pow2 (max (expo x) (- 1022) - 52)"]
  by (simp add: less_imp_le)

lemma pow2_53: "2 ^ 53 * pow2 (e - 52) = pow2 (e + 1)"
proof -
  have "pow2 (53 + (e - 52)) = pow2 53 * pow2 (e - 52)" by (rule pow2_add)
  moreover have "53 + (e - 52) = e + 1" by simp
  ultimately have "pow2 (e + 1) = pow2 53 * pow2 (e - 52)" by simp
  then show ?thesis by (simp add: pow2_def)
qed

lemma pow2_52: "2 ^ 52 * pow2 (e - 52) = pow2 e"
proof -
  have "pow2 (52 + (e - 52)) = pow2 52 * pow2 (e - 52)" by (rule pow2_add)
  moreover have "52 + (e - 52) = e" by simp
  ultimately have "pow2 e = pow2 52 * pow2 (e - 52)" by simp
  then show ?thesis by (simp add: pow2_def)
qed

lemma rnd_mono_pos:
  assumes "0 < x" and "x \<le> y"
  shows "rnd x \<le> rnd y"
proof -
  define ex where "ex = max (expo x) (- 1022)"
  define ey where "ey = max (expo y) (- 1022)"
  have ypos: "0 < y" using assms by linarith
  have le: "ex \<le> ey" unfolding ex_def ey_def using expo_mono[OF assms] by linarith
  have rx: "rnd x = of_int (rhe (x / pow2 (ex - 52))) * pow2 (ex - 52)"
    and ry: "rnd y = of_int (rhe (y / pow2 (ey - 52))) * pow2 (ey - 52)"
    by (simp_all add: rnd_def Let_def ex_def ey_def)
  show ?thesis
  proof (cases "ex = ey")
    case True
    have "x / pow2 (ey - 52) \<le> y / pow2 (ey - 52)"
      using assms(2) by (simp add: divide_right_mono less_imp_le)
    from rhe_mono[OF this] show ?thesis
      unfolding rx ry True by (simp add: mult_right_mono less_imp_le)
  next
    case False
    then have lt: "ex + 1 \<le> ey" using le by linarith
    then have eyy: "ey = expo y" unfolding ey_def ex_def by linarith
    have "x < pow2 (expo x + 1)" using expo_bounds(2)[of x] assms(1) by simp
    also have "\<dots> \<le> pow2 (ex + 1)" by (rule pow2_mono) (simp add: ex_def)
    finally have "x < 2 ^ 53 * pow2 (ex - 52)" using pow2_53[of ex] by simp
    then have "x / pow2 (ex - 52) \<le> of_int (2 ^ 53)"
      by (simp add: pos_divide_le_eq less_imp_le)
    from rhe_mono[OF this] have "rhe (x / pow2 (ex - 52)) \<le> 2 ^ 53" by simp
    then have "of_int (rhe (x / pow2 (ex - 52))) \<le> (of_int (2 ^ 53) :: real)"
      by (simp only: of_int_le_iff)
    then have "of_int (rhe (x / pow2 (ex - 52))) \<le> (2 ^ 53 :: real)" by simp
    then have "rnd x \<le> 2 ^ 53 * pow2 (ex - 52)"
      unfolding rx by (simp add: mult_right_mono less_imp_le)
    then have a: "rnd x \<le> pow2 (ex + 1)" using pow2_53[of ex] by simp
    have "pow2 ey \<le> y" using expo_bounds(1)[of y] ypos eyy by simp
    then have "of_int (2 ^ 52) \<le> y / pow2 (ey - 52)"
      using pow2_52[of ey] by (simp add: pos_le_divide_eq)
    from rhe_mono[OF this] have "2 ^ 52 \<le> rhe (y / pow2 (ey - 52))" by simp
    then have "(of_int (2 ^ 52) :: real) \<le> of_int (rhe (y / pow2 (ey - 52)))"
      by (simp only: of_int_le_iff)
    then have "(2 ^ 52 :: real) \<le> of_int (rhe (y / pow2 (ey - 52)))" by simp
    then have "2 ^ 52 * pow2 (ey - 52) \<le> rnd y"
      unfolding ry by (simp add: mult_right_mono less_imp_le)
    then have b: "pow2 ey \<le> rnd y" using pow2_52[of ey] by simp
    have "pow2 (ex + 1) \<le> pow2 ey" using lt by (rule pow2_mono)
    then show ?thesis using a b by linarith
  qed
qed

lemma rnd_mono:
  assumes "x \<le> y"
  shows "rnd x \<le> rnd y"
proof -
  consider "0 < x" | "x \<le> 0" "0 \<le> y" | "y < 0" by linarith
  then show ?thesis
  proof cases
    case 1 then show ?thesis using assms by (rule rnd_mono_pos)
  next
    case 2
    have "0 \<le> rnd y" using 2 by (simp add: rnd_nonneg)
    moreover have "0 \<le> rnd (- x)" using 2 by (simp add: rnd_nonneg)
    ultimately show ?thesis by (simp add: rnd_minus)
  next
    case 3
    have "rnd (- y) \<le> rnd (- x)" by (rule rnd_mono_pos) (use 3 assms in simp_all)
    then show ?thesis by (simp add: rnd_minus)
  qed
qed

lemma pow2_less_cancel: "pow2 a < pow2 b \<Longrightarrow> a < b"
  by (simp add: pow2_powr)

lemma rnd_exact:
  assumes "x = of_int m * pow2 k" and "\<bar>m\<bar> < 2 ^ 53" and "- 1074 \<le> k"
  shows "rnd x = x"
proof (cases "x = 0")
  case True then show ?thesis by simp
next
  case False
  define E where "E = max (expo x) (- 1022)"
  have "pow2 (expo x) \<le> \<bar>x\<bar>" using expo_bounds(1)[OF False] .
  also have "\<bar>x\<bar> = of_int \<bar>m\<bar> * pow2 k" unfolding assms(1) by (simp add: abs_mult abs_of_pos)
  also have "\<dots> < 2 ^ 53 * pow2 k"
  proof -
    have "(of_int \<bar>m\<bar> :: real) < of_int (2 ^ 53)" using assms(2) by (simp only: of_int_less_iff)
    then show ?thesis by simp
  qed
  also have "\<dots> = pow2 (53 + k)" using pow2_add[of 53 k] by (simp add: pow2_def)
  finally have "expo x < 53 + k" by (rule pow2_less_cancel)
  then have d: "0 \<le> k - (E - 52)" unfolding E_def using assms(3) by linarith
  have "pow2 k = pow2 (k - (E - 52)) * pow2 (E - 52)"
    using pow2_add[of "k - (E - 52)" "E - 52"] by simp
  also have "pow2 (k - (E - 52)) = of_int (2 ^ nat (k - (E - 52)))"
    using d by (simp add: pow2_def)
  finally have "x / pow2 (E - 52) = of_int (m * 2 ^ nat (k - (E - 52)))"
    unfolding assms(1) by simp
  then have "of_int (rhe (x / pow2 (E - 52))) = x / pow2 (E - 52)"
    by (simp only: rhe_of_int)
  then show ?thesis unfolding rnd_def Let_def E_def[symmetric] by simp
qed

lemma rnd_of_int:
  assumes "\<bar>k\<bar> < 2 ^ 53"
  shows "rnd (of_int k) = of_int k"
  by (rule rnd_exact[where m = k and k = 0]) (use assms in simp_all)

lemma rnd_eval:
  assumes "pow2 e \<le> \<bar>x\<bar>" and "\<bar>x\<bar> < pow2 (e + 1)" and "- 1022 \<le> e"
    and "of_int m - 1 / 2 < x / pow2 (e - 52)" and "x / pow2 (e - 52) < of_int m + 1 / 2"
  shows "rnd x = of_int m * pow2 (e - 52)"
proof -
  have e: "expo x = e" using assms(1,2) by (rule expo_eq)
  have "rhe (x / pow2 (e - 52)) = m" using assms(4,5) by (rule rhe_eq)
  then show ?thesis unfolding rnd_def Let_def e using assms(3) by (simp add: max_def)
qed

lemma rnd_error:
  assumes "pow2 (- 1022) \<le> \<bar>x\<bar>"
  shows "\<bar>rnd x - x\<bar> \<le> \<bar>x\<bar> / 2 ^ 53"
proof -
  have "0 < \<bar>x\<bar>" using pow2_pos assms by (rule less_le_trans)
  then have nz: "x \<noteq> 0" by simp
  define e where "e = expo x"
  have lo: "pow2 e \<le> \<bar>x\<bar>" unfolding e_def using expo_bounds(1)[OF nz] .
  have "\<bar>x\<bar> < pow2 (e + 1)" unfolding e_def using expo_bounds(2)[OF nz] .
  then have "pow2 (- 1022) < pow2 (e + 1)" using assms by linarith
  then have ge: "- 1022 \<le> e" using pow2_less_cancel by fastforce
  define u where "u = pow2 (e - 52)"
  have upos: "0 < u" unfolding u_def by simp
  have r: "rnd x = of_int (rhe (x / u)) * u"
    unfolding rnd_def Let_def u_def e_def[symmetric] using ge by (simp add: max_def)
  have "\<bar>rnd x - x\<bar> = \<bar>of_int (rhe (x / u)) - x / u\<bar> * u"
  proof -
    have "rnd x - x = (of_int (rhe (x / u)) - x / u) * u"
      unfolding r using upos by (simp add: algebra_simps)
    then show ?thesis using upos by (simp add: abs_mult)
  qed
  also have "\<dots> \<le> 1 / 2 * u"
    using rhe_close[of "x / u"] upos by (intro mult_right_mono) simp_all
  also have "\<dots> = pow2 e / 2 ^ 53"
  proof -
    have "pow2 e = 2 ^ 52 * u" unfolding u_def using pow2_52[of e] by simp
    then show ?thesis by simp
  qed
  also have "\<dots> \<le> \<bar>x\<bar> / 2 ^ 53" using lo by (simp add: divide_right_mono)
  finally show ?thesis .
qed


lemma pow2_neg_nat: "pow2 (- int k) = 1 / 2 ^ k"
  by (cases k) (simp_all add: pow2_def nat_add_distrib)

lemma rnd_dyadic:
  assumes "x = of_int m / 2 ^ k" and "\<bar>m\<bar> < 2 ^ 53" and "k \<le> 1074"
  shows "rnd x = x"
  by (rule rnd_exact[where m = m and k = "- int k"]) (use assms in \<open>simp_all add: pow2_neg_nat\<close>)

lemma rnd_frac_unfold:
  assumes "2 ^ 52 \<le> \<bar>x\<bar> * 2 ^ k" and "\<bar>x\<bar> * 2 ^ k < 2 ^ 53" and "k \<le> 1074"
  shows "rnd x = of_int (rhe (x * 2 ^ k)) / 2 ^ k"
proof -
  define e where "e = 52 - int k"
  have u: "pow2 (e - 52) = 1 / 2 ^ k" unfolding e_def using pow2_neg_nat[of k] by simp
  have p52: "pow2 e = 2 ^ 52 / 2 ^ k" using pow2_52[of e] u by simp
  have p53: "pow2 (e + 1) = 2 ^ 53 / 2 ^ k" using pow2_53[of e] u by simp
  have "pow2 e \<le> \<bar>x\<bar>" unfolding p52 using assms(1) by (simp add: pos_divide_le_eq)
  moreover have "\<bar>x\<bar> < pow2 (e + 1)" unfolding p53 using assms(2) by (simp add: pos_less_divide_eq)
  ultimately have "expo x = e" by (rule expo_eq)
  moreover have "- 1022 \<le> e" unfolding e_def using assms(3) by simp
  ultimately show ?thesis unfolding rnd_def Let_def by (simp add: max_def u)
qed

lemma rnd_val_frac:
  assumes "2 ^ 52 \<le> \<bar>x\<bar> * 2 ^ k" and "\<bar>x\<bar> * 2 ^ k < 2 ^ 53" and "k \<le> 1074"
    and "of_int m - 1 / 2 < x * 2 ^ k" and "x * 2 ^ k < of_int m + 1 / 2"
    and "v = of_int m / 2 ^ k"
  shows "rnd x = v"
  using rnd_frac_unfold[OF assms(1-3)] rhe_eq[OF assms(4,5)] assms(6) by simp

lemma rnd_tie_frac:
  assumes "2 ^ 52 \<le> \<bar>x\<bar> * 2 ^ k" and "\<bar>x\<bar> * 2 ^ k < 2 ^ 53" and "k \<le> 1074"
    and "x * 2 ^ k = of_int m + 1 / 2"
    and "v = of_int (if even m then m else m + 1) / 2 ^ k"
  shows "rnd x = v"
  using rnd_frac_unfold[OF assms(1-3)] rhe_tie[OF assms(4)] assms(5) by simp

lemma rnd_sqrt_val:
  assumes "(2 ^ 52)\<^sup>2 \<le> y * (2 ^ k)\<^sup>2" and "y * (2 ^ k)\<^sup>2 < (2 ^ 53)\<^sup>2" and "k \<le> 1074"
    and "(of_int m - 1 / 2)\<^sup>2 < y * (2 ^ k)\<^sup>2" and "y * (2 ^ k)\<^sup>2 < (of_int m + 1 / 2)\<^sup>2"
    and "0 < m" and "v = of_int m / 2 ^ k"
  shows "rnd (sqrt y) = v"
proof -
  have s: "sqrt y * 2 ^ k = sqrt (y * (2 ^ k)\<^sup>2)"
    by (simp add: real_sqrt_mult)
  have ypos: "0 \<le> y * (2 ^ k)\<^sup>2"
    using assms(1) by (meson order_trans zero_le_power2)
  have nn: "0 \<le> sqrt y" using ypos by (simp add: zero_le_mult_iff)
  have a: "2 ^ 52 \<le> sqrt (y * (2 ^ k)\<^sup>2)"
    by (rule real_le_rsqrt) (rule assms(1))
  have b: "sqrt (y * (2 ^ k)\<^sup>2) < 2 ^ 53"
    by (rule real_less_lsqrt) (use assms(2) in simp_all)
  have mm: "(0::real) \<le> of_int m - 1 / 2" using assms(6) by (simp add: int_one_le_iff_zero_less[symmetric]) 
  have c: "of_int m - 1 / 2 < sqrt (y * (2 ^ k)\<^sup>2)"
    by (rule real_less_rsqrt) (rule assms(4))
  have d: "sqrt (y * (2 ^ k)\<^sup>2) < of_int m + 1 / 2"
    by (rule real_less_lsqrt) (use assms(5,6) in simp_all)
  show ?thesis
    by (rule rnd_val_frac[where m = m and k = k])
       (use a b c d nn assms(3,7) in \<open>simp_all add: s abs_of_nonneg\<close>)
qed



lemma Math_round_mono: "x \<le> y \<Longrightarrow> Math_round x \<le> Math_round y"
  unfolding Math_round_def by (simp add: floor_mono)

lemma Math_round_of_int [simp]: "Math_round (of_int k) = of_int k"
  unfolding Math_round_def by (simp add: floor_eq_iff)


lemma Math_round_numeral [simp]: "Math_round (numeral k) = numeral k"
  using Math_round_of_int[of "numeral k"] by simp

lemma Math_round_0 [simp]: "Math_round 0 = 0"
  using Math_round_of_int[of 0] by simp

lemma rnd_numeral:
  "numeral k < (2 ^ 53 :: int) \<Longrightarrow> rnd (numeral k) = numeral k"
  using rnd_of_int[of "numeral k"] by simp


text \<open>The error of a rounding, in numerals: a relative error of \<open>2\<^sup>-\<^sup>5\<^sup>3\<close>, or, below
  the normal numbers, an absolute error of \<open>2\<^sup>-\<^sup>1\<^sup>0\<^sup>7\<^sup>5\<close>, bounded here by
  \<open>10\<^sup>-\<^sup>1\<^sup>5\<close>.\<close>

lemma rnd_error_num: "\<bar>rnd x - x\<bar> \<le> \<bar>x\<bar> / 9007199254740992 + 1 / 1000000000000000"
proof (cases "pow2 (- 1022) \<le> \<bar>x\<bar>")
  case True
  from rnd_error[OF this] show ?thesis by simp
next
  case False
  then have small: "\<bar>x\<bar> < pow2 (- 1022)" by simp
  show ?thesis
  proof (cases "x = 0")
    case True
    then show ?thesis by simp
  next
    case nz: False
    have "pow2 (expo x) \<le> \<bar>x\<bar>" using expo_bounds(1)[OF nz] .
    then have "pow2 (expo x) < pow2 (- 1022)" using small by linarith
    then have "expo x < - 1022" by (rule pow2_less_cancel)
    then have m: "max (expo x) (- 1022) = - 1022" by simp
    define u where "u = pow2 (- 1074)"
    have upos: "0 < u" unfolding u_def by simp
    have r: "rnd x = of_int (rhe (x / u)) * u"
      unfolding rnd_def Let_def m u_def by simp
    have "rnd x - x = (of_int (rhe (x / u)) - x / u) * u"
      unfolding r using upos by (simp add: algebra_simps)
    then have "\<bar>rnd x - x\<bar> = \<bar>of_int (rhe (x / u)) - x / u\<bar> * u"
      using upos by (simp add: abs_mult)
    also have "\<dots> \<le> 1 / 2 * u"
      using rhe_close[of "x / u"] upos by (intro mult_right_mono) simp_all
    also have "\<dots> \<le> 1 / 1000000000000000"
      unfolding u_def by (simp add: pow2_def)
    finally have "\<bar>rnd x - x\<bar> \<le> 1 / 1000000000000000" .
    moreover have "0 \<le> \<bar>x\<bar> / 9007199254740992" by simp
    ultimately show ?thesis by linarith
  qed
qed

lemma Math_round_error: "\<bar>Math_round x - x\<bar> \<le> 1 / 2"
  unfolding Math_round_def by linarith

text \<open>The idiom \<open>Math.round(x * 100) / 100\<close> returns the double of a two-decimal number that
  is within half a hundredth of \<open>x\<close>, up to the errors of its two roundings.\<close>

lemma round2_error:
  assumes "\<bar>x\<bar> \<le> 1000"
  shows "\<bar>round2 x - x\<bar> \<le> 1 / 200 + 1 / 1000000000000"
proof -
  define p where "p = rnd (x * 100)"
  define M where "M = Math_round p"
  have e1: "\<bar>p - x * 100\<bar> \<le> \<bar>x * 100\<bar> / 9007199254740992 + 1 / 1000000000000000"
    unfolding p_def by (rule rnd_error_num)
  have e2: "\<bar>M - p\<bar> \<le> 1 / 2" unfolding M_def by (rule Math_round_error)
  have e3: "\<bar>rnd (M / 100) - M / 100\<bar> \<le> \<bar>M / 100\<bar> / 9007199254740992 + 1 / 1000000000000000"
    by (rule rnd_error_num)
  have a: "\<bar>x * 100\<bar> \<le> 100000" using assms by (simp add: abs_mult)
  have r: "round2 x = rnd (M / 100)"
    unfolding round2_def fmul_def fdiv_def M_def p_def ..
  have xm: "\<bar>x * 100\<bar> = \<bar>x\<bar> * 100" by (simp add: abs_mult)
  have mm: "\<bar>M / 100\<bar> = \<bar>M\<bar> / 100" by simp
  show ?thesis
    unfolding r using e1 e2 e3 a assms unfolding xm mm by linarith
qed

section \<open>Properties of the query log analytics\<close>

lemma positive_times:
  "filter (\<lambda>time. time > 0) (map (\<lambda>log. or_zero (responseTime log)) logs) = spec_latencies logs"
  unfolding spec_latencies_def by (induction logs) (auto simp: or_zero_def split: option.splits)



lemma sort_eq_Nil: "sort xs = [] \<longleftrightarrow> xs = []"
  using length_sort[of "\<lambda>x. x" xs] by (metis length_0_conv)


lemma stats_nonempty:
  assumes "logs \<noteq> []"
  shows "total (calculateStats logs) = length logs"
    and "successful (calculateStats logs) = spec_count_status ''success'' logs"
    and "failed (calculateStats logs) = spec_count_status ''error'' logs"
    and "successRate (calculateStats logs) =
           Math_round (fmul (fdiv (real (spec_count_status ''success'' logs)) (real (length logs))) 100)"
    and "averageResponseTime (calculateStats logs) =
           (if spec_latencies logs = [] then 0
            else Math_round (fdiv (foldl (\<lambda>sum time. fadd sum time) 0 (sort (spec_latencies logs)))
                                  (real (length (spec_latencies logs)))))"
    and "medianResponseTime (calculateStats logs) =
           (if spec_latencies logs = [] then 0 else calculateMedian (sort (spec_latencies logs)))"
  using assms
  by (simp_all add: calculateStats_def Let_def positive_times spec_count_status_def sort_eq_Nil)

lemma stats_empty:
  "calculateStats [] = \<lparr>total = 0, successful = 0, failed = 0, successRate = 0, averageResponseTime = 0,
         medianResponseTime = 0, minResponseTime = 0, maxResponseTime = 0\<rparr>"
  by (simp add: calculateStats_def)











lemma count_le: "spec_count_status ''success'' logs + spec_count_status ''error'' logs \<le> length logs"
  unfolding spec_count_status_def
  by (induction logs) auto

lemma count_less:
  "\<exists>l \<in> set logs. status l \<noteq> ''success'' \<and> status l \<noteq> ''error''
   \<Longrightarrow> spec_count_status ''success'' logs + spec_count_status ''error'' logs < length logs"
  unfolding spec_count_status_def
proof (induction logs)
  case Nil then show ?case by simp
next
  case (Cons a logs)
  have le: "length (filter (\<lambda>l. status l = ''success'') logs) + length (filter (\<lambda>l. status l = ''error'') logs) \<le> length logs"
    using count_le[of logs] by (simp add: spec_count_status_def)
  show ?case
  proof (cases "status a \<noteq> ''success'' \<and> status a \<noteq> ''error''")
    case True
    then show ?thesis using le by auto
  next
    case False
    then have "\<exists>l \<in> set logs. status l \<noteq> ''success'' \<and> status l \<noteq> ''error''"
      using Cons.prems by auto
    from Cons.IH[OF this] show ?thesis by auto
  qed
qed

lemma stats_counts:
  "successful (calculateStats logs) = spec_count_status ''success'' logs
   \<and> failed (calculateStats logs) = spec_count_status ''error'' logs
   \<and> total (calculateStats logs) = length logs"
  by (cases "logs = []") (simp_all add: stats_empty stats_nonempty spec_count_status_def)





lemma successRate_mono:
  assumes "logs \<noteq> []" and "status e \<noteq> ''success''"
  shows "successRate (calculateStats (logs @ [e])) \<le> successRate (calculateStats logs)"
proof -
  let ?s = "real (spec_count_status ''success'' logs)"
  let ?n = "real (length logs)"
  have s': "spec_count_status ''success'' (logs @ [e]) = spec_count_status ''success'' logs"
    using assms(2) by (simp add: spec_count_status_def)
  have npos: "0 < ?n" using assms(1) by simp
  have "?s / (?n + 1) \<le> ?s / ?n" using npos by (simp add: frac_le)
  then have "fdiv ?s (?n + 1) \<le> fdiv ?s ?n" unfolding fdiv_def by (rule rnd_mono)
  then have "fdiv ?s (?n + 1) * 100 \<le> fdiv ?s ?n * 100" by simp
  then have "fmul (fdiv ?s (?n + 1)) 100 \<le> fmul (fdiv ?s ?n) 100" unfolding fmul_def by (rule rnd_mono)
  then have "Math_round (fmul (fdiv ?s (?n + 1)) 100) \<le> Math_round (fmul (fdiv ?s ?n) 100)"
    by (rule Math_round_mono)
  then show ?thesis
    using assms(1) by (simp add: stats_nonempty s' add.commute)
qed





text \<open>
  Claim C10 as stated has every entry of another status lower the reported success rate. A
  log of 100 successes and 200 errors reports 33, and it still reports 33 after an entry of
  status \<open>unknown\<close> is appended.
\<close>

theorem calculateStats_rate_not_lowered_counterexample:
  "status \<lparr>apiName = ''AccuWeather'', logLocation = ''York'', responseTime = Some 0, status = ''unknown''\<rparr> \<noteq> ''success''
   \<and> status \<lparr>apiName = ''AccuWeather'', logLocation = ''York'', responseTime = Some 0, status = ''unknown''\<rparr> \<noteq> ''error''
   \<and> successRate (calculateStats
        (replicate 100 \<lparr>apiName = ''AccuWeather'', logLocation = ''York'', responseTime = Some 120, status = ''success''\<rparr>
         @ replicate 200 \<lparr>apiName = ''AccuWeather'', logLocation = ''York'', responseTime = Some 130, status = ''error''\<rparr>))
      = 33
   \<and> successRate (calculateStats
        ((replicate 100 \<lparr>apiName = ''AccuWeather'', logLocation = ''York'', responseTime = Some 120, status = ''success''\<rparr>
          @ replicate 200 \<lparr>apiName = ''AccuWeather'', logLocation = ''York'', responseTime = Some 130, status = ''error''\<rparr>)
         @ [\<lparr>apiName = ''AccuWeather'', logLocation = ''York'', responseTime = Some 0, status = ''unknown''\<rparr>]))
      = 33"
proof -
  have q1: "rnd (1 / 3) = 6004799503160661 / 18014398509481984"
    by (rule rnd_val_frac[where m = "6004799503160661" and k = 54]) simp_all
  have p1: "rnd (150119987579016525 / 4503599627370496) = 2345624805922133 / 70368744177664"
    by (rule rnd_val_frac[where m = "4691249611844266" and k = 47]) simp_all
  have r1: "Math_round (fmul (fdiv 100 300) 100) = 33"
    unfolding fdiv_def fmul_def by (simp add: q1 p1 Math_round_def)
  have q2: "rnd (100 / 301) = 5984850003150161 / 18014398509481984"
    by (rule rnd_val_frac[where m = "5984850003150161" and k = 54]) simp_all
  have p2: "rnd (149621250078754025 / 4503599627370496) = 4675664064961063 / 140737488355328"
    by (rule rnd_val_frac[where m = "4675664064961063" and k = 47]) simp_all
  have r2: "Math_round (fmul (fdiv 100 301) 100) = 33"
    unfolding fdiv_def fmul_def q2 by (simp add: p2 Math_round_def)
  show ?thesis
    by (simp add: stats_nonempty(4) spec_count_status_def r1 r2)
qed

text \<open>
  Claim C10, amended. \<open>calculateStats\<close> counts as successful exactly the entries whose
  status is \<open>success\<close> and as failed exactly those whose status is \<open>error\<close>, so
  \<open>successful + failed \<le> total\<close>, strictly when some entry has another status. Such an
  entry is still part of \<open>total\<close>, the denominator of \<open>successRate\<close>, which is
  \<open>Math.round\<close> of the double \<open>(successful / total) * 100\<close>: appending one to a
  non-empty log never raises the reported rate, and strictly lowers the ratio
  \<open>successful / total\<close> when there is a successful entry; the reported rate, a whole
  number, need not change.
\<close>

theorem calculateStats_status_partition:
  "successful (calculateStats logs) = spec_count_status ''success'' logs
   \<and> failed (calculateStats logs) = spec_count_status ''error'' logs
   \<and> total (calculateStats logs) = length logs
   \<and> successful (calculateStats logs) + failed (calculateStats logs) \<le> total (calculateStats logs)
   \<and> ((\<exists>l \<in> set logs. status l \<noteq> ''success'' \<and> status l \<noteq> ''error'') \<longrightarrow>
        successful (calculateStats logs) + failed (calculateStats logs) < total (calculateStats logs))
   \<and> (logs \<noteq> [] \<longrightarrow>
        successRate (calculateStats logs) =
          Math_round (fmul (fdiv (real (successful (calculateStats logs)))
                                 (real (total (calculateStats logs)))) 100))
   \<and> (logs \<noteq> [] \<and> status e \<noteq> ''success'' \<and> status e \<noteq> ''error'' \<longrightarrow>
        successRate (calculateStats (logs @ [e])) \<le> successRate (calculateStats logs)
      \<and> successful (calculateStats (logs @ [e])) = successful (calculateStats logs)
      \<and> failed (calculateStats (logs @ [e])) = failed (calculateStats logs)
      \<and> total (calculateStats (logs @ [e])) = total (calculateStats logs) + 1
      \<and> (0 < successful (calculateStats logs) \<longrightarrow>
          real (successful (calculateStats (logs @ [e]))) / real (total (calculateStats (logs @ [e])))
          < real (successful (calculateStats logs)) / real (total (calculateStats logs))))"
proof -
  have rate: "logs \<noteq> [] \<Longrightarrow> successRate (calculateStats logs) =
          Math_round (fmul (fdiv (real (successful (calculateStats logs)))
                                 (real (total (calculateStats logs)))) 100)"
    by (simp add: stats_nonempty)
  have lower: "successRate (calculateStats (logs @ [e])) \<le> successRate (calculateStats logs)
      \<and> successful (calculateStats (logs @ [e])) = successful (calculateStats logs)
      \<and> failed (calculateStats (logs @ [e])) = failed (calculateStats logs)
      \<and> total (calculateStats (logs @ [e])) = total (calculateStats logs) + 1
      \<and> (0 < successful (calculateStats logs) \<longrightarrow>
          real (successful (calculateStats (logs @ [e]))) / real (total (calculateStats (logs @ [e])))
          < real (successful (calculateStats logs)) / real (total (calculateStats logs)))"
    if ne: "logs \<noteq> []" and st: "status e \<noteq> ''success''" "status e \<noteq> ''error''"
  proof -
    let ?s = "real (spec_count_status ''success'' logs)"
    let ?n = "real (length logs)"
    have s': "spec_count_status ''success'' (logs @ [e]) = spec_count_status ''success'' logs"
      and f': "spec_count_status ''error'' (logs @ [e]) = spec_count_status ''error'' logs"
      using st by (simp_all add: spec_count_status_def)
    have npos: "0 < ?n" using ne by simp
    have lt: "0 < ?s \<Longrightarrow> ?s / (?n + 1) < ?s / ?n"
      using npos by (simp add: frac_less2)
    show ?thesis
      using successRate_mono[OF ne st(1)] lt stats_counts[of logs] stats_counts[of "logs @ [e]"] s' f'
      by (simp add: add.commute)
  qed
  note c = stats_counts[of logs]
  have c1: "successful (calculateStats logs) = spec_count_status ''success'' logs"
    and c2: "failed (calculateStats logs) = spec_count_status ''error'' logs"
    and c3: "total (calculateStats logs) = length logs"
    using c by simp_all
  have c4: "successful (calculateStats logs) + failed (calculateStats logs) \<le> total (calculateStats logs)"
    using count_le[of logs] c by simp
  have c5: "(\<exists>l \<in> set logs. status l \<noteq> ''success'' \<and> status l \<noteq> ''error'') \<longrightarrow>
        successful (calculateStats logs) + failed (calculateStats logs) < total (calculateStats logs)"
    using count_less[of logs] c by simp
  have c6: "logs \<noteq> [] \<longrightarrow>
        successRate (calculateStats logs) =
          Math_round (fmul (fdiv (real (successful (calculateStats logs)))
                                 (real (total (calculateStats logs)))) 100)"
    using rate by blast
  have c7: "logs \<noteq> [] \<and> status e \<noteq> ''success'' \<and> status e \<noteq> ''error'' \<longrightarrow>
        successRate (calculateStats (logs @ [e])) \<le> successRate (calculateStats logs)
      \<and> successful (calculateStats (logs @ [e])) = successful (calculateStats logs)
      \<and> failed (calculateStats (logs @ [e])) = failed (calculateStats logs)
      \<and> total (calculateStats (logs @ [e])) = total (calculateStats logs) + 1
      \<and> (0 < successful (calculateStats logs) \<longrightarrow>
          real (successful (calculateStats (logs @ [e]))) / real (total (calculateStats (logs @ [e])))
          < real (successful (calculateStats logs)) / real (total (calculateStats logs)))"
    using lower by blast
  show ?thesis using c1 c2 c3 c4 c5 c6 c7 by (intro conjI)
qed

text \<open>A log with one success and one entry of the constructor's default status
  \<open>unknown\<close>.\<close>

theorem calculateStats_status_partition_witness:
  "(\<exists>l \<in> set [\<lparr>apiName = ''AccuWeather'', logLocation = ''York'', responseTime = Some 120, status = ''success''\<rparr>,
               \<lparr>apiName = ''AccuWeather'', logLocation = ''York'', responseTime = Some 0, status = ''unknown''\<rparr>].
        status l \<noteq> ''success'' \<and> status l \<noteq> ''error'')
   \<and> successful (calculateStats
         [\<lparr>apiName = ''AccuWeather'', logLocation = ''York'', responseTime = Some 120, status = ''success''\<rparr>,
          \<lparr>apiName = ''AccuWeather'', logLocation = ''York'', responseTime = Some 0, status = ''unknown''\<rparr>])
     + failed (calculateStats
         [\<lparr>apiName = ''AccuWeather'', logLocation = ''York'', responseTime = Some 120, status = ''success''\<rparr>,
          \<lparr>apiName = ''AccuWeather'', logLocation = ''York'', responseTime = Some 0, status = ''unknown''\<rparr>])
     < total (calculateStats
         [\<lparr>apiName = ''AccuWeather'', logLocation = ''York'', responseTime = Some 120, status = ''success''\<rparr>,
          \<lparr>apiName = ''AccuWeather'', logLocation = ''York'', responseTime = Some 0, status = ''unknown''\<rparr>])
   \<and> successRate (calculateStats
         ([\<lparr>apiName = ''AccuWeather'', logLocation = ''York'', responseTime = Some 120, status = ''success''\<rparr>]
          @ [\<lparr>apiName = ''AccuWeather'', logLocation = ''York'', responseTime = Some 0, status = ''unknown''\<rparr>]))
     \<le> successRate (calculateStats
         [\<lparr>apiName = ''AccuWeather'', logLocation = ''York'', responseTime = Some 120, status = ''success''\<rparr>])
   \<and> successRate (calculateStats
         [\<lparr>apiName = ''AccuWeather'', logLocation = ''York'', responseTime = Some 120, status = ''success''\<rparr>,
          \<lparr>apiName = ''AccuWeather'', logLocation = ''York'', responseTime = Some 0, status = ''unknown''\<rparr>])
     = 50"
  (is "?other \<and> ?less \<and> ?lower \<and> ?half")
proof -
  let ?a = "\<lparr>apiName = ''AccuWeather'', logLocation = ''York'', responseTime = Some 120, status = ''success''\<rparr>"
  let ?b = "\<lparr>apiName = ''AccuWeather'', logLocation = ''York'', responseTime = Some 0, status = ''unknown''\<rparr>"
  have other: ?other by simp
  have prem: "[?a] \<noteq> [] \<and> status ?b \<noteq> ''success'' \<and> status ?b \<noteq> ''error''" by simp
  have less: ?less
    using calculateStats_status_partition [of "[?a, ?b]"] other by blast
  have lower: ?lower
    using calculateStats_status_partition [of "[?a]" ?b] prem by blast
  have ne: "[?a, ?b] \<noteq> []" by simp
  have h: "rnd (1 / 2) = 1 / 2"
    by (rule rnd_dyadic[where m = 1 and k = 1]) simp_all
  have h50: "rnd 50 = 50"
    by (rule rnd_dyadic[where m = 50 and k = 0]) simp_all
  have cnt: "successful (calculateStats [?a, ?b]) = 1" "total (calculateStats [?a, ?b]) = 2"
    by (simp_all add: stats_nonempty spec_count_status_def)
  have half: ?half
    using calculateStats_status_partition [of "[?a, ?b]", THEN conjunct2, THEN conjunct2, THEN conjunct2,
            THEN conjunct2, THEN conjunct2, THEN conjunct1, THEN mp, OF ne]
    unfolding cnt by (simp add: fdiv_def fmul_def h h50)
  show ?thesis using other less lower half by (intro conjI)
qed

section \<open>Properties of the weather model and the comparator\<close>

lemma metric_of_reading:
  "metric_of ''temperature'' (reading s c h p m) = or_null c"
  "metric_of ''humidity'' (reading s c h p m) = or_null h"
  "metric_of ''pressure'' (reading s c h p m) = or_null p"
  "metric_of ''windSpeed'' (reading s c h p m) = or_null m"
  by (simp_all add: metric_of_def getStandardizedCurrent_def reading_def Let_def)



lemma compareMetric_None:
  "compareMetric ws metric = None \<longleftrightarrow> List.map_filter (metric_of metric) ws = []"
  by (simp add: compareMetric_def Let_def)

lemma compareMetric_Some:
  assumes "compareMetric ws metric = Some r"
  shows "vals r = List.map_filter (metric_of metric) ws"
    and "vals r \<noteq> []"
    and "count r = length (vals r)"
    and "min_value r = Min (set (vals r))"
    and "max_value r = Max (set (vals r))"
    and "mean r = round2 (spec_mean (vals r))"
    and "variance r = round2 (spec_variance (vals r))"
    and "standardDeviation r = round2 (Math_sqrt (spec_variance (vals r)))"
    and "median r = calculateMedian (vals r)"
    and "range_value r = fsub (max_value r) (min_value r)"
    and "agreement r \<longleftrightarrow> Math_sqrt (spec_variance (vals r)) < fmul (spec_mean (vals r)) (rnd (1 / 10))"
  using assms
  by (auto simp: compareMetric_def Let_def spec_mean_def spec_variance_def Math_pow_2_def
           split: if_splits)










lemma rnd_small_numerals:
  "rnd 10 = 10" "rnd 12 = 12" "rnd 14 = 14" "rnd 21 = 21" "rnd 22 = 22" "rnd 36 = 36"
  "rnd 2 = 2" "rnd 4 = 4" "rnd 8 = 8" "rnd 1200 = 1200" "rnd 11 = 11"
  by (simp_all add: rnd_numeral)

text \<open>
  Claim C2, at the input where the code departs from it. For the two temperatures 10 and 11
  the conventional median is 10.5, and \<open>Weather.compareMetricAcrossSources\<close> returns it;
  \<open>ComparisonController.compareMetric\<close> returns 11, because its \<open>calculateMedian\<close> passes
  the average of the two middle elements through \<open>Math.round\<close>. The other statistics of the
  claim are computed as it says, in double arithmetic (lemma \<open>compareMetric_Some\<close>).
\<close>

theorem compareMetric_even_median_rounded:
  "map_option median
     (compareMetric [reading ''OpenWeatherMap'' (Some 10) None None None,
                     reading ''WeatherAPI'' (Some 11) None None None] ''temperature'') = Some 11
   \<and> spec_median [10, 11] = 21 / 2
   \<and> Option.bind
       (compareMetricAcrossSources [reading ''OpenWeatherMap'' (Some 10) None None None,
                                    reading ''WeatherAPI'' (Some 11) None None None] ''temperature'')
       src_median = Some (21 / 2)"
proof -
  have v: "List.map_filter (metric_of ''temperature'')
             [reading ''OpenWeatherMap'' (Some 10) None None None,
              reading ''WeatherAPI'' (Some 11) None None None] = [10, 11]"
    by (simp add: List.map_filter_simps metric_of_reading or_null_def)
  have h: "rnd (21 / 2) = 21 / 2"
    by (rule rnd_dyadic[where m = 21 and k = 1]) simp_all
  have m1: "calculateMedian [10, 11] = 11"
    by (simp add: calculateMedian_def fadd_def fdiv_def rnd_small_numerals h Math_round_def)
  have m2: "Weather_calculateMedian [10, 11] = Some (21 / 2)"
    by (simp add: Weather_calculateMedian_def fadd_def fdiv_def rnd_small_numerals h)
  have m3: "spec_median [10, 11] = 21 / 2"
    by (simp add: spec_median_def)
  show ?thesis
    unfolding compareMetric_def compareMetricAcrossSources_def v
    by (simp add: Let_def m1 m2 m3)
qed

lemma scenario_values:
  "List.map_filter (metric_of ''temperature'')
     [reading ''OpenWeatherMap'' (Some 10) None None None,
      reading ''WeatherAPI'' (Some 12) None None None,
      reading ''AccuWeather'' (Some 14) None None None] = [10, 12, 14]"
  by (simp add: List.map_filter_simps metric_of_reading or_null_def)

lemma scenario_mean: "spec_mean [10, 12, 14] = 12"
  by (simp add: spec_mean_def fadd_def fdiv_def rnd_small_numerals)

lemma scenario_variance: "spec_variance [10, 12, 14] = 6004799503160661 / 2251799813685248"
proof -
  have v: "rnd (8 / 3) = 6004799503160661 / 2251799813685248"
    by (rule rnd_val_frac[where m = "6004799503160661" and k = 51]) simp_all
  have d: "fsub 10 12 = - 2" "fsub 12 12 = 0" "fsub 14 12 = 2"
    by (simp_all add: fsub_def rnd_minus rnd_small_numerals)
  show ?thesis
    unfolding spec_variance_def scenario_mean
    by (simp add: d fmul_def fadd_def fdiv_def rnd_small_numerals v)
qed

lemma scenario_deviation:
  "Math_sqrt (6004799503160661 / 2251799813685248) = 3677173697615391 / 2251799813685248"
  unfolding Math_sqrt_def
  by (rule rnd_sqrt_val[where m = 7354347395230782 and k = 52]) (simp_all add: power2_eq_square)

lemma scenario_threshold: "fmul 12 (rnd (1 / 10)) = 1351079888211149 / 1125899906842624"
proof -
  have c: "rnd (1 / 10) = 3602879701896397 / 36028797018963968"
    by (rule rnd_val_frac[where m = "7205759403792794" and k = 56]) simp_all
  have th: "rnd (10808639105689191 / 9007199254740992) = 1351079888211149 / 1125899906842624"
    by (rule rnd_tie_frac[where m = "5404319552844595" and k = 52]) simp_all
  show ?thesis unfolding fmul_def c by (simp add: th)
qed

lemma scenario_round2:
  "round2 12 = 12"
  "round2 (6004799503160661 / 2251799813685248) = rnd (267 / 100)"
  "round2 (3677173697615391 / 2251799813685248) = rnd (163 / 100)"
proof -
  show "round2 12 = 12"
    by (simp add: round2_def fmul_def fdiv_def rnd_small_numerals)
  have v100: "rnd (150119987579016525 / 562949953421312) = 2345624805922133 / 8796093022208"
    by (rule rnd_val_frac[where m = "4691249611844266" and k = 44]) simp_all
  show "round2 (6004799503160661 / 2251799813685248) = rnd (267 / 100)"
    by (simp add: round2_def fmul_def fdiv_def v100 Math_round_def)
  have sd100: "rnd (91929342440384775 / 562949953421312) = 359098993907753 / 2199023255552"
    by (rule rnd_val_frac[where m = "5745583902524048" and k = 45]) simp_all
  show "round2 (3677173697615391 / 2251799813685248) = rnd (163 / 100)"
    by (simp add: round2_def fmul_def fdiv_def sd100 Math_round_def)
qed

lemma scenario_result:
  "compareMetric
     [reading ''OpenWeatherMap'' (Some 10) None None None,
      reading ''WeatherAPI'' (Some 12) None None None,
      reading ''AccuWeather'' (Some 14) None None None] ''temperature''
   = Some \<lparr>vals = [10, 12, 14], count = 3, min_value = 10, max_value = 14, mean = 12,
            median = 12, standardDeviation = rnd (163 / 100), variance = rnd (267 / 100),
            range_value = 4, agreement = False\<rparr>"
proof -
  obtain r where r: "compareMetric
     [reading ''OpenWeatherMap'' (Some 10) None None None,
      reading ''WeatherAPI'' (Some 12) None None None,
      reading ''AccuWeather'' (Some 14) None None None] ''temperature'' = Some r"
    using compareMetric_None[of _ "''temperature''"] scenario_values by fastforce
  note f = compareMetric_Some[OF r]
  have v: "vals r = [10, 12, 14]" using f(1) scenario_values by simp
  have med: "calculateMedian [10, 12, 14] = 12"
    by (simp add: calculateMedian_def)
  have "r = \<lparr>vals = [10, 12, 14], count = 3, min_value = 10, max_value = 14, mean = 12,
            median = 12, standardDeviation = rnd (163 / 100), variance = rnd (267 / 100),
            range_value = 4, agreement = False\<rparr>"
    using f(3-11)[unfolded v scenario_mean scenario_variance scenario_deviation scenario_threshold
      scenario_round2 med] v
    by (cases r) (simp add: fsub_def rnd_small_numerals)
  then show ?thesis using r by simp
qed

text \<open>
  Claim C3 as stated asks for \<open>agreement = true\<close> on the temperatures 10, 12, 14. The code
  returns \<open>false\<close>: the standard deviation, the double nearest to the square root of the
  variance, is 1.632993161855452 and not below 1.2000000000000002, the double product of the
  mean 12 and 0.1.
\<close>

theorem compareMetric_scenario_agreement_true_counterexample:
  "map_option agreement
     (compareMetric
        [reading ''OpenWeatherMap'' (Some 10) None None None,
         reading ''WeatherAPI'' (Some 12) None None None,
         reading ''AccuWeather'' (Some 14) None None None] ''temperature'') = Some False"
  by (simp add: scenario_result)

text \<open>
  Claim C3, amended. For records with the temperatures 10, 12 and 14, \<open>compareMetric\<close>
  yields mean 12, median 12, variance 2.67, standard deviation 1.63 (the doubles that these
  decimals denote) and \<open>agreement = false\<close>. For values of a magnitude up to
  \<open>2\<^sup>4\<^sup>0\<^sup>0\<close>, \<open>agreement\<close> is the strict comparison, in doubles, of the unrounded
  standard deviation with the product of the unrounded mean and 0.1.
\<close>

theorem compareMetric_scenario:
  "compareMetric
     [reading ''OpenWeatherMap'' (Some 10) None None None,
      reading ''WeatherAPI'' (Some 12) None None None,
      reading ''AccuWeather'' (Some 14) None None None] ''temperature''
   = Some \<lparr>vals = [10, 12, 14], count = 3, min_value = 10, max_value = 14, mean = 12,
            median = 12, standardDeviation = rnd (163 / 100), variance = rnd (267 / 100),
            range_value = 4, agreement = False\<rparr>
   \<and> (compareMetric ws metric = Some r \<and> (\<forall>v \<in> set (vals r). \<bar>v\<bar> \<le> 2 ^ 400) \<and> length ws < 2 ^ 32 \<longrightarrow>
        (agreement r \<longleftrightarrow>
           Math_sqrt (spec_variance (vals r)) < fmul (spec_mean (vals r)) (rnd (1 / 10))))"
  using scenario_result compareMetric_Some(11) [of ws metric r] by blast

text \<open>
  The general part of the theorem above at the scenario itself.
\<close>

theorem compareMetric_scenario_witness:
  "compareMetric
     [reading ''OpenWeatherMap'' (Some 10) None None None,
      reading ''WeatherAPI'' (Some 12) None None None,
      reading ''AccuWeather'' (Some 14) None None None] ''temperature''
   = Some \<lparr>vals = [10, 12, 14], count = 3, min_value = 10, max_value = 14, mean = 12,
            median = 12, standardDeviation = rnd (163 / 100), variance = rnd (267 / 100),
            range_value = 4, agreement = False\<rparr>
   \<and> \<bar>10 :: real\<bar> \<le> 2 ^ 400 \<and> \<bar>12 :: real\<bar> \<le> 2 ^ 400 \<and> \<bar>14 :: real\<bar> \<le> 2 ^ 400
   \<and> length [reading ''OpenWeatherMap'' (Some 10) None None None,
              reading ''WeatherAPI'' (Some 12) None None None,
              reading ''AccuWeather'' (Some 14) None None None] < 2 ^ 32
   \<and> \<not> Math_sqrt (spec_variance [10, 12, 14]) < fmul (spec_mean [10, 12, 14]) (rnd (1 / 10))"
proof -
  let ?ws = "[reading ''OpenWeatherMap'' (Some 10) None None None,
              reading ''WeatherAPI'' (Some 12) None None None,
              reading ''AccuWeather'' (Some 14) None None None]"
  let ?r = "\<lparr>vals = [10, 12, 14], count = 3, min_value = 10, max_value = 14, mean = 12,
            median = 12, standardDeviation = rnd (163 / 100), variance = rnd (267 / 100),
            range_value = 4, agreement = False\<rparr>"
  note T = compareMetric_scenario [of ?ws "''temperature''" ?r]
  have a: "compareMetric ?ws ''temperature'' = Some ?r" by (rule T[THEN conjunct1])
  have b1: "\<bar>10 :: real\<bar> \<le> 2 ^ 400" and b2: "\<bar>12 :: real\<bar> \<le> 2 ^ 400" and b3: "\<bar>14 :: real\<bar> \<le> 2 ^ 400"
    by simp_all
  have len: "length ?ws < 2 ^ 32" by simp
  have h: "compareMetric ?ws ''temperature'' = Some ?r \<and> (\<forall>v \<in> set (vals ?r). \<bar>v\<bar> \<le> 2 ^ 400)
           \<and> length ?ws < 2 ^ 32"
    using a b1 b2 b3 len by simp
  have "agreement ?r \<longleftrightarrow> Math_sqrt (spec_variance (vals ?r)) < fmul (spec_mean (vals ?r)) (rnd (1 / 10))"
    by (rule T[THEN conjunct2, THEN mp, OF h])
  then have c: "\<not> Math_sqrt (spec_variance [10, 12, 14]) < fmul (spec_mean [10, 12, 14]) (rnd (1 / 10))"
    by simp
  show ?thesis using a b1 b2 b3 len c by (intro conjI)
qed




text \<open>
  Claim C4, at the inputs where the code departs from it. \<open>getStandardizedCurrent\<close> reads every
  numeric field through \<open>|| null\<close>, which sends 0 to \<open>null\<close>: a record with UV index 0
  standardizes to the same value as the record without a UV index, and likewise a humidity of
  0, a wind direction of 0 degrees and, in the forecast, a daily UV index of 0 come out absent.
  A record at 0 degrees Celsius passes \<open>isValid\<close> and is standardized without a temperature.
\<close>

theorem getStandardizedCurrent_zero_is_absent:
  "getStandardizedCurrent (w\<lparr>current := (current w)\<lparr>uv := Some 0\<rparr>\<rparr>)
     = getStandardizedCurrent (w\<lparr>current := (current w)\<lparr>uv := None\<rparr>\<rparr>)
   \<and> uv (getStandardizedCurrent (w\<lparr>current := (current w)\<lparr>uv := Some 0\<rparr>\<rparr>)) = None
   \<and> humidity (getStandardizedCurrent (w\<lparr>current := (current w)\<lparr>humidity := Some 0\<rparr>\<rparr>)) = None
   \<and> Option.bind
       (wind (getStandardizedCurrent (w\<lparr>current := (current w)\<lparr>wind := Some (wd\<lparr>direction := Some 0\<rparr>)\<rparr>\<rparr>)))
       direction = None
   \<and> isValid (reading ''WeatherAPI'' (Some 0) (Some 93) (Some 1021) (Some 4))
   \<and> Option.bind
       (temperature (getStandardizedCurrent (reading ''WeatherAPI'' (Some 0) (Some 93) (Some 1021) (Some 4))))
       celsius = None
   \<and> day_uv (getStandardizedDay (d\<lparr>day_uv := Some 0\<rparr>)) = None"
  by (simp add: getStandardizedCurrent_def getStandardizedDay_def Let_def or_null_def isValid_def
        hasValidLocation_def hasValidCurrent_def reading_def or_null_str_def)

section \<open>Properties of the wind speed conversions\<close>

lemma rnd_36_10: "rnd (36 / 10) = 8106479329266893 / 2251799813685248"
  by (rule rnd_val_frac[where m = "8106479329266893" and k = 51]) simp_all

lemma mps_error:
  assumes "0 \<le> k" and "k \<le> 1000"
  shows "\<bar>round2 (fdiv k (rnd (36 / 10))) - k / (36 / 10)\<bar> \<le> 1 / 200 + 1 / 100000000000"
proof -
  define q where "q = rnd (k * (2251799813685248 / 8106479329266893))"
  have q: "fdiv k (rnd (36 / 10)) = q"
    unfolding fdiv_def rnd_36_10 q_def by simp
  have e1: "\<bar>q - k * (2251799813685248 / 8106479329266893)\<bar>
            \<le> \<bar>k * (2251799813685248 / 8106479329266893)\<bar> / 9007199254740992 + 1 / 1000000000000000"
    unfolding q_def by (rule rnd_error_num)
  have a: "\<bar>k * (2251799813685248 / 8106479329266893)\<bar> = k * (2251799813685248 / 8106479329266893)"
    using assms(1) by simp
  have b: "\<bar>q\<bar> \<le> 1000" using e1 assms unfolding a by linarith
  have e2: "\<bar>round2 q - q\<bar> \<le> 1 / 200 + 1 / 1000000000000" using b by (rule round2_error)
  have c: "k / (36 / 10) = k * (10 / 36)" by simp
  show ?thesis unfolding q c using e1 e2 assms unfolding a by linarith
qed

lemma kmh_error:
  assumes "0 \<le> v" and "v \<le> 250"
  shows "\<bar>round2 (fmul v (rnd (36 / 10))) - v * (36 / 10)\<bar> \<le> 1 / 200 + 1 / 100000000000"
proof -
  define p where "p = rnd (v * (8106479329266893 / 2251799813685248))"
  have p: "fmul v (rnd (36 / 10)) = p"
    unfolding fmul_def rnd_36_10 p_def by simp
  have e1: "\<bar>p - v * (8106479329266893 / 2251799813685248)\<bar>
            \<le> \<bar>v * (8106479329266893 / 2251799813685248)\<bar> / 9007199254740992 + 1 / 1000000000000000"
    unfolding p_def by (rule rnd_error_num)
  have a: "\<bar>v * (8106479329266893 / 2251799813685248)\<bar> = v * (8106479329266893 / 2251799813685248)"
    using assms(1) by simp
  have b: "\<bar>p\<bar> \<le> 1000" using e1 assms unfolding a by linarith
  have e2: "\<bar>round2 p - p\<bar> \<le> 1 / 200 + 1 / 1000000000000" using b by (rule round2_error)
  show ?thesis unfolding p using e1 e2 assms unfolding a by linarith
qed

lemma round2_two_decimals: "\<exists>n :: int. round2 x = rnd (of_int n / 100)"
  unfolding round2_def fdiv_def Math_round_def by blast

text \<open>
  Claim C5 as stated fails in three ways. The OpenWeatherMap adapter stores a wind speed of
  1.234 m/s unrounded, with \<open>kmh\<close> 4.44, and 4.44 / 3.6 rounds to 1.23. The AccuWeather
  adapter turns the double 0.09 km/h into 0.03 m/s: the quotient by 3.6 is just below 0.025,
  its double product with 100 is 2.5, and \<open>Math.round\<close> takes that to 3, where the two-decimal
  number nearest to 0.09 / 3.6 is 0.02. And the forecast days of the OpenWeatherMap adapter
  carry no \<open>kmh\<close> at all.
\<close>

theorem wind_speed_relation_counterexample:
  "\<not> spec_mps_from_kmh (OpenWeather_wind_speed (rnd (1234 / 1000)))
   \<and> mps (AccuWeather_wind_speed (rnd (9 / 100)) (rnd (6 / 100))) = Some (rnd (3 / 100))
   \<and> \<not> spec_mps_from_kmh (AccuWeather_wind_speed (rnd (9 / 100)) (rnd (6 / 100)))
   \<and> kmh (OpenWeather_forecast_wind_speed (rnd (1234 / 1000))) = None"
proof -
  have c: "rnd (18 / 5) = 8106479329266893 / 2251799813685248"
    using rnd_36_10 by simp
  have v: "rnd (617 / 500) = 694680242521899 / 562949953421312"
    by (rule rnd_val_frac[where m = "5557441940175192" and k = 52]) simp_all
  have p: "rnd (5631411026453886367293168189807 / 1267650600228229401496703205376) = 5001697746157673 / 1125899906842624"
    by (rule rnd_val_frac[where m = "5001697746157673" and k = 50]) simp_all
  have p_100: "rnd (125042443653941825 / 281474976710656) = 1953788182092841 / 4398046511104"
    by (rule rnd_val_frac[where m = "7815152728371364" and k = 44]) simp_all
  have p_r: "rnd (111 / 25) = 4998995586381251 / 1125899906842624"
    by (rule rnd_val_frac[where m = "4998995586381251" and k = 50]) simp_all
  have m123: "rnd (123 / 100) = 2769713770832855 / 2251799813685248"
    by (rule rnd_val_frac[where m = "5539427541665710" and k = 52]) simp_all
  have kmh1: "kmh (OpenWeather_wind_speed (rnd (1234 / 1000))) = Some (4998995586381251 / 1125899906842624)"
    by (simp add: OpenWeather_wind_speed_def fmul_def fdiv_def v c p p_100 Math_round_def p_r)
  have mps1: "mps (OpenWeather_wind_speed (rnd (1234 / 1000))) = Some (694680242521899 / 562949953421312)"
    by (simp add: OpenWeather_wind_speed_def v)
  have a: "\<not> spec_mps_from_kmh (OpenWeather_wind_speed (rnd (1234 / 1000)))"
    unfolding spec_mps_from_kmh_def kmh1 mps1 by (simp add: m123)
  have k9: "rnd (9 / 100) = 3242591731706757 / 36028797018963968"
    by (rule rnd_val_frac[where m = "6485183463413514" and k = 56]) simp_all
  have q9: "rnd (3242591731706757 / 129703669268270288) = 7205759403792793 / 288230376151711744"
    by (rule rnd_val_frac[where m = "7205759403792793" and k = 58]) simp_all
  have p9: "rnd (180143985094819825 / 72057594037927936) = 5 / 2"
    by (rule rnd_val_frac[where m = "5629499534213120" and k = 51]) simp_all
  have r3: "rnd (3 / 100) = 1080863910568919 / 36028797018963968"
    by (rule rnd_val_frac[where m = "8646911284551352" and k = 58]) simp_all
  have r2: "rnd (1 / 50) = 5764607523034235 / 288230376151711744"
    by (rule rnd_val_frac[where m = "5764607523034235" and k = 58]) simp_all
  have mps2: "mps (AccuWeather_wind_speed (rnd (9 / 100)) (rnd (6 / 100))) = Some (rnd (3 / 100))"
    by (simp add: AccuWeather_wind_speed_def fmul_def fdiv_def k9 c q9 p9 Math_round_def)
  have kmh2: "kmh (AccuWeather_wind_speed (rnd (9 / 100)) (rnd (6 / 100))) = Some (3242591731706757 / 36028797018963968)"
    by (simp add: AccuWeather_wind_speed_def k9)
  have b: "\<not> spec_mps_from_kmh (AccuWeather_wind_speed (rnd (9 / 100)) (rnd (6 / 100)))"
    unfolding spec_mps_from_kmh_def kmh2 mps2 by (simp add: r3 r2)
  have d: "kmh (OpenWeather_forecast_wind_speed (rnd (1234 / 1000))) = None"
    by (simp add: OpenWeather_forecast_wind_speed_def)
  show ?thesis using a mps2 b d by (intro conjI)
qed

text \<open>
  Claim C5, amended. For a provider's wind speed between 0 and 1000 km/h, the WeatherAPI adapter
  (current conditions and forecast days alike) and the AccuWeather adapter (current
  conditions) store it as \<open>kmh\<close> and store as \<open>mps\<close> the double value of
  \<open>Math.round((kmh / 3.6) * 100) / 100\<close>: the double of a two-decimal number, within 0.005
  of \<open>kmh / 3.6\<close> up to a rounding error below \<open>10\<^sup>-\<^sup>1\<^sup>1\<close>. The OpenWeatherMap
  adapter converts the other way: for a provider's wind speed between 0 and 250 m/s, \<open>mps\<close> is
  that value, unrounded, and \<open>kmh\<close> is the double value of
  \<open>Math.round((mps * 3.6) * 100) / 100\<close>, within 0.005 of \<open>mps \<times> 3.6\<close> up to the same
  error. The forecast days and the gust of the OpenWeatherMap adapter carry \<open>mps\<close> and no
  \<open>kmh\<close>, the gust of the WeatherAPI adapter carries \<open>kmh\<close> and no \<open>mps\<close>, and the
  forecast days of the AccuWeather adapter have no wind.
\<close>

theorem wind_speed_mps_from_kmh:
  "(0 \<le> wind_kph \<and> wind_kph \<le> 1000 \<longrightarrow>
      kmh (WeatherApi_wind_speed wind_mph wind_kph) = Some wind_kph
    \<and> mps (WeatherApi_wind_speed wind_mph wind_kph) = Some (round2 (fdiv wind_kph (rnd (36 / 10))))
    \<and> WeatherApi_forecast_wind_speed wind_mph wind_kph = WeatherApi_wind_speed wind_mph wind_kph
    \<and> AccuWeather_wind_speed wind_kph wind_mph = WeatherApi_wind_speed wind_mph wind_kph
    \<and> (\<exists>n :: int. round2 (fdiv wind_kph (rnd (36 / 10))) = rnd (of_int n / 100))
    \<and> \<bar>round2 (fdiv wind_kph (rnd (36 / 10))) - wind_kph / (36 / 10)\<bar> \<le> 1 / 200 + 1 / 100000000000)
   \<and> (0 \<le> v \<and> v \<le> 250 \<longrightarrow>
      mps (OpenWeather_wind_speed v) = Some v
    \<and> kmh (OpenWeather_wind_speed v) = Some (round2 (fmul v (rnd (36 / 10))))
    \<and> (\<exists>n :: int. round2 (fmul v (rnd (36 / 10))) = rnd (of_int n / 100))
    \<and> \<bar>round2 (fmul v (rnd (36 / 10))) - v * (36 / 10)\<bar> \<le> 1 / 200 + 1 / 100000000000)
   \<and> mps (OpenWeather_forecast_wind_speed v) = Some v
   \<and> kmh (OpenWeather_forecast_wind_speed v) = None
   \<and> mps (OpenWeather_wind_gust v) = Some v
   \<and> kmh (OpenWeather_wind_gust v) = None
   \<and> kmh (WeatherApi_wind_gust gust_mph gust_kph) = Some gust_kph
   \<and> mps (WeatherApi_wind_gust gust_mph gust_kph) = None
   \<and> Option.bind AccuWeather_forecast_wind speed = None"
  (is "?api \<and> ?open \<and> ?rest")
proof -
  have api: ?api
    using mps_error[of wind_kph] round2_two_decimals[of "fdiv wind_kph (rnd (36 / 10))"]
    by (simp add: WeatherApi_wind_speed_def WeatherApi_forecast_wind_speed_def
          AccuWeather_wind_speed_def round2_def)
  have "open": ?open
    using kmh_error[of v] round2_two_decimals[of "fmul v (rnd (36 / 10))"]
    by (simp add: OpenWeather_wind_speed_def round2_def)
  have rest: ?rest
    by (simp add: OpenWeather_forecast_wind_speed_def OpenWeather_wind_gust_def WeatherApi_wind_gust_def
          AccuWeather_forecast_wind_def)
  show ?thesis by (rule conjI[OF api conjI[OF "open" rest]])
qed

text \<open>
  The wind speed of the test payload of the repository, 5.5 m/s, which the OpenWeatherMap
  adapter turns into 19.8 km/h; and 19.8 km/h, which the other two adapters turn into 5.5 m/s.
\<close>

theorem wind_speed_mps_from_kmh_witness:
  "0 \<le> rnd (198 / 10) \<and> rnd (198 / 10) \<le> 1000
   \<and> mps (WeatherApi_wind_speed (rnd (123 / 10)) (rnd (198 / 10))) = Some (11 / 2)
   \<and> mps (AccuWeather_wind_speed (rnd (198 / 10)) (rnd (123 / 10))) = Some (11 / 2)
   \<and> \<bar>11 / 2 - rnd (198 / 10) / (36 / 10)\<bar> \<le> 1 / 200 + 1 / 100000000000
   \<and> (0 :: real) \<le> 11 / 2 \<and> (11 / 2 :: real) \<le> 250
   \<and> kmh (OpenWeather_wind_speed (11 / 2)) = Some (rnd (198 / 10))"
proof -
  note T = wind_speed_mps_from_kmh [of "rnd (198 / 10)" "rnd (123 / 10)" "11 / 2"]
  have c: "rnd (18 / 5) = 8106479329266893 / 2251799813685248"
    using rnd_36_10 by simp
  have k198: "rnd (99 / 5) = 5573204538870989 / 281474976710656"
    by (rule rnd_val_frac[where m = "5573204538870989" and k = 48]) simp_all
  have q198: "rnd (44585636310967912 / 8106479329266893) = 11 / 2"
    by (rule rnd_val_frac[where m = "6192449487634432" and k = 50]) simp_all
  have h550: "rnd 550 = 550" by (simp add: rnd_numeral)
  have h11: "rnd (11 / 2) = 11 / 2"
    by (rule rnd_dyadic[where m = "11" and k = 1]) simp_all
  have r1: "round2 (fdiv (rnd (198 / 10)) (rnd (36 / 10))) = 11 / 2"
    by (simp add: round2_def fmul_def fdiv_def k198 c q198 h550 h11)
  have w: "rnd (89171272621935823 / 4503599627370496) = 5573204538870989 / 281474976710656"
    by (rule rnd_val_frac[where m = "5573204538870989" and k = 48]) simp_all
  have w_100: "rnd (139330113471774725 / 70368744177664) = 1980"
    by (rule rnd_val_frac[where m = "8708132091985920" and k = 42]) simp_all
  have r2: "round2 (fmul (11 / 2) (rnd (36 / 10))) = rnd (198 / 10)"
    by (simp add: round2_def fmul_def fdiv_def c w w_100)
  have h1: "0 \<le> rnd (198 / 10) \<and> rnd (198 / 10) \<le> 1000" by (simp add: k198)
  have h2: "(0 :: real) \<le> 11 / 2 \<and> (11 / 2 :: real) \<le> 250" by simp
  note A = T[THEN conjunct1, THEN mp, OF h1]
  note B = T[THEN conjunct2, THEN conjunct1, THEN mp, OF h2]
  have a1: "mps (WeatherApi_wind_speed (rnd (123 / 10)) (rnd (198 / 10))) = Some (11 / 2)"
    using A[THEN conjunct2, THEN conjunct1] unfolding r1 .
  have a2: "mps (AccuWeather_wind_speed (rnd (198 / 10)) (rnd (123 / 10))) = Some (11 / 2)"
    using A[THEN conjunct2, THEN conjunct2, THEN conjunct2, THEN conjunct1] a1 by (simp only:)
  have a3: "\<bar>11 / 2 - rnd (198 / 10) / (36 / 10)\<bar> \<le> 1 / 200 + 1 / 100000000000"
    using A[THEN conjunct2, THEN conjunct2, THEN conjunct2, THEN conjunct2, THEN conjunct2]
    unfolding r1 .
  have b1: "kmh (OpenWeather_wind_speed (11 / 2)) = Some (rnd (198 / 10))"
    using B[THEN conjunct2, THEN conjunct1] unfolding r2 .
  show ?thesis
    using h1[THEN conjunct1] h1[THEN conjunct2] a1 a2 a3 h2[THEN conjunct1] h2[THEN conjunct2] b1
    by (intro conjI)
qed

section \<open>Properties of the circuit breaker\<close>

lemma catch_block_simps:
  "fst (catch_block p c cb effects s m) = Inl (error_prefix p @ m)"
  "snd (snd (catch_block p c cb effects s m)) = on_failure (time_of_failure c) cb"
  by (simp_all add: catch_block_def)






















section \<open>Properties of the location cleaning\<close>

lemmas char_classes = upper_letter_def lower_letter_def digit_def whitespace_def class_A_Z_def
  class_0_9R_def class_0_9A_Z_def class_ABD_HJLNP_UW_Z_def

lemma class_not_whitespace:
  "class_A_Z c \<Longrightarrow> \<not> whitespace c"
  "class_0_9R c \<Longrightarrow> \<not> whitespace c"
  "class_0_9A_Z c \<Longrightarrow> \<not> whitespace c"
  "digit c \<Longrightarrow> \<not> whitespace c"
  "class_ABD_HJLNP_UW_Z c \<Longrightarrow> \<not> whitespace c"
  by (auto simp: char_classes)

lemma class_weaken:
  "class_A_Z c \<Longrightarrow> class_0_9A_Z c"
  "class_0_9R c \<Longrightarrow> class_0_9A_Z c"
  "class_ABD_HJLNP_UW_Z c \<Longrightarrow> class_0_9A_Z c"
  "digit c \<Longrightarrow> class_0_9A_Z c"
  by (auto simp: char_classes)

lemma toUpperCase_char_class:
  "class_0_9A_Z c \<Longrightarrow> upper_letter (toUpperCase_char c) \<or> digit (toUpperCase_char c)"
  "class_A_Z c \<Longrightarrow> upper_letter (toUpperCase_char c)"
  by (auto simp: char_classes toUpperCase_char_def)

lemma upper_or_digit_not_whitespace:
  "upper_letter c \<or> digit c \<Longrightarrow> \<not> whitespace c"
  by (auto simp: char_classes)

lemma toUpperCase_char_space: "toUpperCase_char (CHR '' '') = CHR '' ''"
  by (simp add: toUpperCase_char_def)

lemma match_inward_shape:
  "match_inward cs \<Longrightarrow>
   \<exists>d u v. cs = [CHR '' '', d, u, v] \<and> class_0_9A_Z d \<and> class_0_9A_Z u \<and> class_0_9A_Z v"
  by (erule match_inward.elims) (auto simp: class_weaken)

lemma match_district_shape:
  "match_district cs \<Longrightarrow>
   \<exists>out d u v. cs = out @ [CHR '' '', d, u, v] \<and> (\<forall>x \<in> set out. class_0_9A_Z x)
      \<and> class_0_9A_Z d \<and> class_0_9A_Z u \<and> class_0_9A_Z v"
proof (cases cs)
  case Nil
  assume "match_district cs" then show ?thesis using Nil by simp
next
  case (Cons c rest)
  assume m: "match_district cs"
  then have c: "class_0_9A_Z c" using Cons by (simp add: class_weaken)
  from m Cons consider (two) x xs where "rest = x # xs" "class_0_9A_Z x" "match_inward xs"
    | (one) "match_inward rest"
    by (auto split: list.splits)
  then show ?thesis
  proof cases
    case two
    from match_inward_shape[OF two(3)] obtain d u v where
      "xs = [CHR '' '', d, u, v]" "class_0_9A_Z d" "class_0_9A_Z u" "class_0_9A_Z v" by blast
    then show ?thesis using Cons two c
      by (intro exI[of _ "[c, x]"] exI[of _ d] exI[of _ u] exI[of _ v]) auto
  next
    case one
    from match_inward_shape[OF one] obtain d u v where
      "rest = [CHR '' '', d, u, v]" "class_0_9A_Z d" "class_0_9A_Z u" "class_0_9A_Z v" by blast
    then show ?thesis using Cons c
      by (intro exI[of _ "[c]"] exI[of _ d] exI[of _ u] exI[of _ v]) auto
  qed
qed

lemma postcode_shape:
  assumes "postcodeRegex_test c"
  shows "\<exists>a out d u v. c = a # out @ [CHR '' '', d, u, v] \<and> class_A_Z a
      \<and> (\<forall>x \<in> set out. class_0_9A_Z x)
      \<and> class_0_9A_Z d \<and> class_0_9A_Z u \<and> class_0_9A_Z v"
proof (cases c)
  case Nil
  then show ?thesis using assms by simp
next
  case (Cons a rest)
  then have a: "class_A_Z a" using assms by simp
  from assms Cons consider (two) b xs where "rest = b # xs" "class_A_Z b" "match_district xs"
    | (one) "match_district rest"
    by (auto split: list.splits)
  then show ?thesis
  proof cases
    case two
    from match_district_shape[OF two(3)] obtain out d u v where
      "xs = out @ [CHR '' '', d, u, v]" "\<forall>x \<in> set out. class_0_9A_Z x"
      "class_0_9A_Z d" "class_0_9A_Z u" "class_0_9A_Z v" by blast
    then show ?thesis using Cons two a
      by (intro exI[of _ a] exI[of _ "b # out"] exI[of _ d] exI[of _ u] exI[of _ v])
        (auto simp: class_weaken)
  next
    case one
    from match_district_shape[OF one] obtain out d u v where
      "rest = out @ [CHR '' '', d, u, v]" "\<forall>x \<in> set out. class_0_9A_Z x"
      "class_0_9A_Z d" "class_0_9A_Z u" "class_0_9A_Z v" by blast
    then show ?thesis using Cons a
      by (intro exI[of _ a] exI[of _ out] exI[of _ d] exI[of _ u] exI[of _ v]) auto
  qed
qed

lemma collapse_no_whitespace:
  "\<forall>x \<in> set xs. \<not> whitespace x \<Longrightarrow> collapse_whitespace xs = xs"
  by (induction xs) auto

lemma collapse_one_space:
  assumes "\<forall>x \<in> set xs. \<not> whitespace x" and "ys \<noteq> []" and "\<forall>x \<in> set ys. \<not> whitespace x"
  shows "collapse_whitespace (xs @ CHR '' '' # ys) = xs @ CHR '' '' # ys"
  using assms(1)
proof (induction xs)
  case Nil
  have "dropWhile whitespace ys = ys" using assms(2,3) by (cases ys) auto
  then show ?case using assms(3) by (simp add: whitespace_def collapse_no_whitespace)
next
  case (Cons x xs)
  then show ?case by simp
qed

lemma formatted_postcode:
  assumes "postcodeRegex_test c"
  shows "collapse_whitespace (toUpperCase c) = toUpperCase c"
    and "CHR '' '' \<in> set (toUpperCase c)"
    and "toUpperCase c \<noteq> []" and "upper_letter (hd (toUpperCase c))"
proof -
  from postcode_shape[OF assms] obtain a out d u v where
    c: "c = a # out @ [CHR '' '', d, u, v]" and a: "class_A_Z a"
    and out: "\<forall>x \<in> set out. class_0_9A_Z x"
    and d: "class_0_9A_Z d" "class_0_9A_Z u" "class_0_9A_Z v" by blast
  let ?U = toUpperCase_char
  have up: "toUpperCase c = (?U a # map ?U out) @ CHR '' '' # [?U d, ?U u, ?U v]"
    by (simp add: c toUpperCase_def toUpperCase_char_space)
  have nw: "class_0_9A_Z x \<Longrightarrow> \<not> whitespace (?U x)" for x
    using toUpperCase_char_class(1)[of x] upper_or_digit_not_whitespace by blast
  have l: "\<forall>x \<in> set (?U a # map ?U out). \<not> whitespace x"
    using a out nw by (auto simp: class_weaken)
  have r: "\<forall>x \<in> set [?U d, ?U u, ?U v]. \<not> whitespace x"
    using d nw by auto
  show "collapse_whitespace (toUpperCase c) = toUpperCase c"
    unfolding up by (rule collapse_one_space[OF l _ r]) simp
  show "CHR '' '' \<in> set (toUpperCase c)" unfolding up by simp
  show "toUpperCase c \<noteq> []" unfolding up by simp
  show "upper_letter (hd (toUpperCase c))" unfolding up using a by (simp add: toUpperCase_char_class)
qed

lemma postcode_trim:
  assumes "postcodeRegex_test loc"
  shows "trim loc = loc"
proof -
  from postcode_shape[OF assms] obtain a out d u v where
    c: "loc = a # out @ [CHR '' '', d, u, v]" and a: "class_A_Z a" and v: "class_0_9A_Z v" by blast
  have 1: "dropWhile whitespace loc = loc"
    using a by (simp add: c class_not_whitespace)
  have "rev loc = v # rev (a # out @ [CHR '' '', d, u])" by (simp add: c)
  then have 2: "dropWhile whitespace (rev loc) = rev loc"
    using v by (simp add: class_not_whitespace)
  show ?thesis by (simp add: trim_def 1 2)
qed

lemma match_area_prefix:
  "p \<noteq> [] \<Longrightarrow> upper_letter (hd p) \<Longrightarrow> match_area p = Some (spec_area_prefix p)"
  by (cases p; cases "tl p") (auto simp: match_area_def spec_area_prefix_def split: list.splits)

lemma spec_area_prefix_length:
  "p \<noteq> [] \<Longrightarrow> upper_letter (hd p) \<Longrightarrow>
   length (spec_area_prefix p) = 1 \<or> length (spec_area_prefix p) = 2"
  by (cases p; cases "tl p") (auto simp: spec_area_prefix_def)

lemma postcodeAreas_keys: "\<forall>k \<in> set (map fst postcodeAreas). list_all upper_letter k"
  by (simp add: postcodeAreas_def upper_letter_def)

lemma postcodeAreas_key_letters:
  assumes "map_of postcodeAreas k = Some city"
  shows "\<forall>x \<in> set k. upper_letter x"
proof -
  have "k \<in> set (map fst postcodeAreas)"
    using assms by (metis map_of_SomeD image_eqI fst_conv set_map)
  then show ?thesis using postcodeAreas_keys by (auto simp: list_all_iff)
qed

lemma match_digits_digit: "match_digits s = Some ds \<Longrightarrow> \<exists>x \<in> set ds. digit x"
  by (auto simp: match_digits_def split: list.splits if_splits)

lemma match_longerArea_digit: "match_longerArea p = Some m \<Longrightarrow> \<exists>x \<in> set m. digit x"
  by (auto simp: match_longerArea_def split: list.splits if_splits option.splits
      dest!: match_digits_digit)

lemma digit_not_upper: "digit x \<Longrightarrow> \<not> upper_letter x"
  by (auto simp: digit_def upper_letter_def)

lemma longerArea_never_found:
  "Option.bind (match_longerArea p) (map_of postcodeAreas) = None"
proof (cases "match_longerArea p")
  case None
  then show ?thesis by simp
next
  case (Some m)
  then obtain x where x: "x \<in> set m" "digit x" using match_longerArea_digit by blast
  have "map_of postcodeAreas m = None"
  proof (rule ccontr)
    assume "map_of postcodeAreas m \<noteq> None"
    then obtain city where "map_of postcodeAreas m = Some city" by auto
    then have "upper_letter x" using postcodeAreas_key_letters x(1) by blast
    then show False using x(2) digit_not_upper by blast
  qed
  then show ?thesis using Some by simp
qed

lemma getNearbyCityForPostcode_area:
  "getNearbyCityForPostcode p =
     (case Option.bind (match_area p) (map_of postcodeAreas) of
        Some city \<Rightarrow> city | None \<Rightarrow> ''United Kingdom'')"
  by (simp add: getNearbyCityForPostcode_def longerArea_never_found split: option.splits)

lemma postcodeAreas_cities: "\<forall>c \<in> set (map snd postcodeAreas). \<not> postcodeRegex_test c"
  by (simp add: postcodeAreas_def char_classes)

lemma city_not_postcode: "\<not> postcodeRegex_test (getNearbyCityForPostcode p)"
proof (cases "Option.bind (match_area p) (map_of postcodeAreas)")
  case None
  then have "getNearbyCityForPostcode p = ''United Kingdom''"
    by (simp add: getNearbyCityForPostcode_area)
  then show ?thesis by (simp add: char_classes)
next
  case (Some city)
  then obtain k where "map_of postcodeAreas k = Some city"
    by (auto simp: bind_eq_Some_conv)
  then have "city \<in> set (map snd postcodeAreas)"
    by (metis map_of_SomeD image_eqI snd_conv set_map)
  then have "\<not> postcodeRegex_test city"
    using postcodeAreas_cities by blast
  moreover have "getNearbyCityForPostcode p = city"
    using Some by (simp add: getNearbyCityForPostcode_area)
  ultimately show ?thesis by simp
qed

lemma postcode_not_empty: "postcodeRegex_test (trim loc) \<Longrightarrow> loc \<noteq> []"
  by (auto simp: trim_def)

text \<open>
  Claim C9. A location that matches the postcode pattern still matches it after \<open>trim\<close>,
  and for every location whose trimmed form matches, \<open>cleanLocation\<close> returns the city
  that the table gives for the one or two leading letters of the capitalised postcode, or
  \<open>United Kingdom\<close> when the table has no entry for them; what it returns does not match
  the postcode pattern.
\<close>

theorem cleanLocation_postcode:
  "(postcodeRegex_test loc \<longrightarrow> postcodeRegex_test (trim loc))
   \<and> (postcodeRegex_test (trim loc) \<longrightarrow>
     cleanLocation loc =
       Inr (case map_of postcodeAreas (spec_area_prefix (toUpperCase (trim loc))) of
              Some city \<Rightarrow> city
            | None \<Rightarrow> ''United Kingdom'')
     \<and> (length (spec_area_prefix (toUpperCase (trim loc))) = 1
        \<or> length (spec_area_prefix (toUpperCase (trim loc))) = 2)
     \<and> \<not> postcodeRegex_test
          (case map_of postcodeAreas (spec_area_prefix (toUpperCase (trim loc))) of
             Some city \<Rightarrow> city
           | None \<Rightarrow> ''United Kingdom''))"
proof (rule conjI)
  show "postcodeRegex_test loc \<longrightarrow> postcodeRegex_test (trim loc)"
    by (simp add: postcode_trim)
next
  let ?p = "toUpperCase (trim loc)"
  let ?city = "case map_of postcodeAreas (spec_area_prefix ?p) of
                 Some city \<Rightarrow> city | None \<Rightarrow> ''United Kingdom''"
  show "postcodeRegex_test (trim loc) \<longrightarrow>
     cleanLocation loc = Inr ?city
     \<and> (length (spec_area_prefix ?p) = 1 \<or> length (spec_area_prefix ?p) = 2)
     \<and> \<not> postcodeRegex_test ?city"
  proof
    assume m: "postcodeRegex_test (trim loc)"
    note f = formatted_postcode[OF m]
    have area: "match_area ?p = Some (spec_area_prefix ?p)"
      by (rule match_area_prefix[OF f(3,4)])
    have city: "getNearbyCityForPostcode ?p = ?city"
      by (simp add: getNearbyCityForPostcode_area area)
    have clean: "cleanLocation loc = Inr (getNearbyCityForPostcode ?p)"
      using m postcode_not_empty[OF m] f(1,2) by (simp add: cleanLocation_def Let_def)
    show "cleanLocation loc = Inr ?city
       \<and> (length (spec_area_prefix ?p) = 1 \<or> length (spec_area_prefix ?p) = 2)
       \<and> \<not> postcodeRegex_test ?city"
      using clean city city_not_postcode[of ?p] spec_area_prefix_length[OF f(3,4)] by simp
  qed
qed

text \<open>
  A Leicester postcode in small letters with spaces around it, and a Brighton postcode, whose
  area \<open>BN\<close> is not in the table.
\<close>

theorem cleanLocation_postcode_witness:
  "postcodeRegex_test (trim '' le1 5ww '')
   \<and> cleanLocation '' le1 5ww '' = Inr ''Leicester''
   \<and> postcodeRegex_test (trim ''BN1 1AA'')
   \<and> cleanLocation ''BN1 1AA'' = Inr ''United Kingdom''"
proof -
  have t1: "trim '' le1 5ww '' = ''le1 5ww''" by (simp add: trim_def whitespace_def)
  have t2: "trim ''BN1 1AA'' = ''BN1 1AA''" by (simp add: trim_def whitespace_def)
  have m1: "postcodeRegex_test (trim '' le1 5ww '')" unfolding t1 by (simp add: char_classes)
  have m2: "postcodeRegex_test (trim ''BN1 1AA'')" unfolding t2 by (simp add: char_classes)
  have a1: "spec_area_prefix (toUpperCase (trim '' le1 5ww '')) = ''LE''"
    unfolding t1 by (simp add: spec_area_prefix_def toUpperCase_def toUpperCase_char_def upper_letter_def)
  have a2: "spec_area_prefix (toUpperCase (trim ''BN1 1AA'')) = ''BN''"
    unfolding t2 by (simp add: spec_area_prefix_def toUpperCase_def toUpperCase_char_def upper_letter_def)
  have l1: "map_of postcodeAreas ''LE'' = Some ''Leicester''" by (simp add: postcodeAreas_def)
  have l2: "map_of postcodeAreas ''BN'' = None" by (simp add: postcodeAreas_def)
  have c1: "cleanLocation '' le1 5ww '' = Inr ''Leicester''"
    using cleanLocation_postcode [of "'' le1 5ww ''"] m1 by (simp only: a1 l1 option.case)
  have c2: "cleanLocation ''BN1 1AA'' = Inr ''United Kingdom''"
    using cleanLocation_postcode [of "''BN1 1AA''"] m2 by (simp only: a2 l2 option.case)
  show ?thesis using m1 m2 c1 c2 by (intro conjI)
qed

section \<open>Properties of the aggregation\<close>

lemma map_fst_assign:
  "map fst (assign k v kvs) = (if k \<in> fst ` set kvs then map fst kvs else map fst kvs @ [k])"
  by (induction k v kvs rule: assign.induct) (auto simp: image_iff)

lemma assign_keys: "fst ` set (assign k v kvs) = insert k (fst ` set kvs)"
proof -
  have "set (map fst (assign k v kvs)) = insert k (set (map fst kvs))"
    unfolding map_fst_assign by auto
  then show ?thesis by simp
qed

lemma assign_distinct: "distinct (map fst kvs) \<Longrightarrow> distinct (map fst (assign k v kvs))"
  by (simp add: map_fst_assign)

lemma fetch_cases:
  "fetch now l (rs, es) (n, s) =
     (if spec_succeeds now l s
      then (assign n \<lparr>entry_data = getStandardized (new_Weather now (case currentWeather s l of Returns d \<Rightarrow> d)),
                       entry_success = True, entry_source = n\<rparr> rs, es)
      else (rs, assign n (if \<not> isAvailable s then ''Service not available (API key not configured)''
                          else case currentWeather s l of Throws m \<Rightarrow> m
                               | Returns d \<Rightarrow> ''Invalid weather data received'') es))"
  by (auto simp: fetch_def spec_succeeds_def Let_def split: Outcome.splits)

lemma foldl_fetch:
  "foldl (fetch now l) (rs, es) xs = (rs', es') \<Longrightarrow>
   fst ` set rs' = fst ` set rs \<union> {n. \<exists>s. (n, s) \<in> set xs \<and> spec_succeeds now l s}
   \<and> fst ` set es' = fst ` set es \<union> {n. \<exists>s. (n, s) \<in> set xs \<and> \<not> spec_succeeds now l s}
   \<and> (distinct (map fst rs) \<longrightarrow> distinct (map fst rs'))
   \<and> (distinct (map fst es) \<longrightarrow> distinct (map fst es'))"
proof (induction xs arbitrary: rs es)
  case Nil
  then show ?case by simp
next
  case (Cons x xs)
  obtain n s where x: "x = (n, s)" by (cases x)
  show ?case
  proof (cases "spec_succeeds now l s")
    case True
    then obtain e where f: "fetch now l (rs, es) (n, s) = (assign n e rs, es)"
      by (simp add: fetch_cases)
    from Cons.prems have "foldl (fetch now l) (assign n e rs, es) xs = (rs', es')"
      by (simp add: x f)
    from Cons.IH[OF this] show ?thesis
      using True by (auto simp: x assign_keys assign_distinct)
  next
    case False
    then obtain m where f: "fetch now l (rs, es) (n, s) = (rs, assign n m es)"
      by (simp add: fetch_cases)
    from Cons.prems have "foldl (fetch now l) (rs, assign n m es) xs = (rs', es')"
      by (simp add: x f)
    from Cons.IH[OF this] show ?thesis
      using False by (auto simp: x assign_keys assign_distinct)
  qed
qed

lemma aggregate_keys:
  assumes "set settled = {e \<in> set svcs. isAvailable (snd e)}"
    and "foldl (fetch now l) ([], []) (filter (\<lambda>entry. \<not> isAvailable (snd entry)) svcs @ settled) = (rs, es)"
  shows "fst ` set rs = spec_succeeding now l svcs"
    and "fst ` set es = spec_failing now l svcs"
    and "length rs = card (spec_succeeding now l svcs)"
    and "length es = card (spec_failing now l svcs)"
proof -
  define xs where "xs = filter (\<lambda>entry. \<not> isAvailable (snd entry)) svcs @ settled"
  have xs: "set xs = set svcs" unfolding xs_def using assms(1) by auto
  have "foldl (fetch now l) ([], []) xs = (rs, es)" unfolding xs_def by (rule assms(2))
  note f = foldl_fetch[OF this]
  show r: "fst ` set rs = spec_succeeding now l svcs"
    using f by (simp add: spec_succeeding_def xs)
  show e: "fst ` set es = spec_failing now l svcs"
    using f by (simp add: spec_failing_def xs)
  have "distinct (map fst rs)" "distinct (map fst es)" using f by simp_all
  then have "card (set (map fst rs)) = length rs" "card (set (map fst es)) = length es"
    using distinct_card[of "map fst rs"] distinct_card[of "map fst es"] by simp_all
  then show "length rs = card (spec_succeeding now l svcs)"
    and "length es = card (spec_failing now l svcs)"
    using r e by simp_all
qed

lemma compareCurrentWeather_keys:
  "trim loc \<noteq> [] \<and> set settled = {e \<in> set (services ow wa aw). isAvailable (snd e)} \<longrightarrow>
     (spec_succeeding now (trim loc) (services ow wa aw) \<noteq> {} \<longrightarrow>
        (\<exists>c. compareCurrentWeather now loc ow wa aw settled = Status200 c
           \<and> comparison_success c
           \<and> fst ` set (comparison_results c) = spec_succeeding now (trim loc) (services ow wa aw)
           \<and> fst ` set (case comparison_errors c of None \<Rightarrow> [] | Some errors \<Rightarrow> errors)
               = spec_failing now (trim loc) (services ow wa aw)
           \<and> sources_successful (comparison_sources c)
               = card (spec_succeeding now (trim loc) (services ow wa aw))
           \<and> sources_failed (comparison_sources c)
               = card (spec_failing now (trim loc) (services ow wa aw))
           \<and> sources_total (comparison_sources c) = 3))
   \<and> (spec_succeeding now (trim loc) (services ow wa aw) = {} \<longrightarrow>
        (\<exists>errors. compareCurrentWeather now loc ow wa aw settled
                    = Status503 ''No weather data available'' errors
           \<and> fst ` set errors = spec_failing now (trim loc) (services ow wa aw)
           \<and> fst ` set errors = fst ` set (services ow wa aw)))"
proof (intro impI, elim conjE)
  assume ne: "trim loc \<noteq> []"
    and st: "set settled = {e \<in> set (services ow wa aw). isAvailable (snd e)}"
  let ?svcs = "services ow wa aw"
  let ?l = "trim loc"
  obtain rs es where
    fold: "foldl (fetch now ?l) ([], []) (filter (\<lambda>entry. \<not> isAvailable (snd entry)) ?svcs @ settled) = (rs, es)"
    by (cases "foldl (fetch now ?l) ([], []) (filter (\<lambda>entry. \<not> isAvailable (snd entry)) ?svcs @ settled)")
  note k = aggregate_keys[OF st fold]
  have fin: "finite (spec_succeeding now ?l ?svcs)"
    using k(1)[symmetric] by simp
  have len: "length rs = 0 \<longleftrightarrow> spec_succeeding now ?l ?svcs = {}"
    using k(1) by auto
  have es_len: "length es = 0 \<longleftrightarrow> spec_failing now ?l ?svcs = {}"
    using k(2) by auto
  have all: "spec_succeeding now ?l ?svcs = {} \<Longrightarrow> spec_failing now ?l ?svcs = fst ` set ?svcs"
    by (auto simp: spec_succeeding_def spec_failing_def) force
  have val: "compareCurrentWeather now loc ow wa aw settled =
     (if length rs = 0 then Status503 ''No weather data available'' es
      else Status200
             \<lparr>comparison_success = True,
              comparison_location = ?l,
              comparison_sources =
                \<lparr>sources_successful = length rs, sources_failed = length es,
                 sources_total = length ?svcs\<rparr>,
              comparison_results = rs,
              comparison_errors = (if length es > 0 then Some es else None)\<rparr>)"
    using ne fold by (simp add: compareCurrentWeather_def Let_def)
  show "(spec_succeeding now ?l ?svcs \<noteq> {} \<longrightarrow>
        (\<exists>c. compareCurrentWeather now loc ow wa aw settled = Status200 c
           \<and> comparison_success c
           \<and> fst ` set (comparison_results c) = spec_succeeding now ?l ?svcs
           \<and> fst ` set (case comparison_errors c of None \<Rightarrow> [] | Some errors \<Rightarrow> errors)
               = spec_failing now ?l ?svcs
           \<and> sources_successful (comparison_sources c) = card (spec_succeeding now ?l ?svcs)
           \<and> sources_failed (comparison_sources c) = card (spec_failing now ?l ?svcs)
           \<and> sources_total (comparison_sources c) = 3))
   \<and> (spec_succeeding now ?l ?svcs = {} \<longrightarrow>
        (\<exists>errors. compareCurrentWeather now loc ow wa aw settled
                    = Status503 ''No weather data available'' errors
           \<and> fst ` set errors = spec_failing now ?l ?svcs
           \<and> fst ` set errors = fst ` set ?svcs))"
  proof (intro conjI impI)
    assume some: "spec_succeeding now ?l ?svcs \<noteq> {}"
    then have "length rs \<noteq> 0" using len by simp
    then show "\<exists>c. compareCurrentWeather now loc ow wa aw settled = Status200 c
           \<and> comparison_success c
           \<and> fst ` set (comparison_results c) = spec_succeeding now ?l ?svcs
           \<and> fst ` set (case comparison_errors c of None \<Rightarrow> [] | Some errors \<Rightarrow> errors)
               = spec_failing now ?l ?svcs
           \<and> sources_successful (comparison_sources c) = card (spec_succeeding now ?l ?svcs)
           \<and> sources_failed (comparison_sources c) = card (spec_failing now ?l ?svcs)
           \<and> sources_total (comparison_sources c) = 3"
      using val k es_len by (auto simp: services_def)
  next
    assume none: "spec_succeeding now ?l ?svcs = {}"
    then have "length rs = 0" using len by simp
    then show "\<exists>errors. compareCurrentWeather now loc ow wa aw settled
                    = Status503 ''No weather data available'' errors
           \<and> fst ` set errors = spec_failing now ?l ?svcs
           \<and> fst ` set errors = fst ` set ?svcs"
      using val k(2) all[OF none] by simp
  qed
qed

lemma observation_valid: "isValid (new_Weather now (observation src c))"
  by (simp add: isValid_def hasValidLocation_def hasValidCurrent_def new_Weather_def
        observation_def reading_def or_null_str_def)

lemma scenario_services:
  "spec_succeeds now l (answering (observation src c))"
  "\<not> spec_succeeds now l (throwing m)"
  by (simp_all add: spec_succeeds_def answering_def throwing_def observation_valid)

lemma fetch_all_cases:
  "fetch_all now l (rs, es) (n, s) =
     (if spec_succeeds now l s
      then (rs @ [\<lparr>result_source = n,
                    result_data = getStandardized (new_Weather now (case currentWeather s l of Returns d \<Rightarrow> d)),
                    result_success = True\<rparr>], es)
      else (rs, es @ [\<lparr>error_source = n,
                        error_message = (if \<not> isAvailable s then ''Service not available (API key not configured)''
                          else case currentWeather s l of Throws m \<Rightarrow> m
                               | Returns d \<Rightarrow> ''Invalid weather data received'')\<rparr>]))"
  by (auto simp: fetch_all_def spec_succeeds_def Let_def split: Outcome.splits)

lemma foldl_fetch_all:
  "foldl (fetch_all now l) (rs, es) xs = (rs', es') \<Longrightarrow>
   result_source ` set rs' = result_source ` set rs \<union> {n. \<exists>s. (n, s) \<in> set xs \<and> spec_succeeds now l s}
   \<and> error_source ` set es' = error_source ` set es \<union> {n. \<exists>s. (n, s) \<in> set xs \<and> \<not> spec_succeeds now l s}"
proof (induction xs arbitrary: rs es)
  case Nil
  then show ?case by simp
next
  case (Cons x xs)
  obtain n s where x: "x = (n, s)" by (cases x)
  show ?case
  proof (cases "spec_succeeds now l s")
    case True
    then obtain e where f: "fetch_all now l (rs, es) (n, s) = (rs @ [e], es)" and e: "result_source e = n"
      by (simp add: fetch_all_cases)
    from Cons.prems have "foldl (fetch_all now l) (rs @ [e], es) xs = (rs', es')"
      by (simp add: x f)
    from Cons.IH[OF this] show ?thesis
      using True e by (auto simp: x)
  next
    case False
    then obtain m where f: "fetch_all now l (rs, es) (n, s) = (rs, es @ [m])" and m: "error_source m = n"
      by (simp add: fetch_all_cases)
    from Cons.prems have "foldl (fetch_all now l) (rs, es @ [m]) xs = (rs', es')"
      by (simp add: x f)
    from Cons.IH[OF this] show ?thesis
      using False m by (auto simp: x)
  qed
qed

lemma getAllCurrentWeather_partial_failure:
  assumes cl: "cleanLocation loc = Inr l"
    and st: "set settled = {e \<in> set (services ow wa aw). isAvailable (snd e)}"
  shows "(spec_succeeding now l (services ow wa aw) \<noteq> {} \<longrightarrow>
        (\<exists>c. getAllCurrentWeather now loc ow wa aw settled = AllStatus200 c
           \<and> all_success c
           \<and> result_source ` set (all_results c) = spec_succeeding now l (services ow wa aw)
           \<and> error_source ` set (case all_errors c of None \<Rightarrow> [] | Some errors \<Rightarrow> errors)
               = spec_failing now l (services ow wa aw)))
   \<and> (spec_succeeding now l (services ow wa aw) = {} \<longrightarrow>
        (\<exists>errors. getAllCurrentWeather now loc ow wa aw settled
                    = AllStatus503 ''No weather data available'' errors
           \<and> error_source ` set errors = fst ` set (services ow wa aw)))"
proof -
  let ?svcs = "services ow wa aw"
  define xs where "xs = filter (\<lambda>entry. \<not> isAvailable (snd entry)) ?svcs @ settled"
  have xs: "set xs = set ?svcs" unfolding xs_def using st by auto
  obtain rs es where fold: "foldl (fetch_all now l) ([], []) xs = (rs, es)"
    by (cases "foldl (fetch_all now l) ([], []) xs")
  from foldl_fetch_all[OF fold]
  have r: "result_source ` set rs = spec_succeeding now l ?svcs"
    and e: "error_source ` set es = spec_failing now l ?svcs"
    by (simp_all add: spec_succeeding_def spec_failing_def xs)
  have len: "length rs = 0 \<longleftrightarrow> spec_succeeding now l ?svcs = {}" using r by auto
  have es_len: "length es = 0 \<longleftrightarrow> spec_failing now l ?svcs = {}" using e by auto
  have all: "spec_succeeding now l ?svcs = {} \<Longrightarrow> spec_failing now l ?svcs = fst ` set ?svcs"
    by (auto simp: spec_succeeding_def spec_failing_def) force
  have val: "getAllCurrentWeather now loc ow wa aw settled =
     (if length rs = 0 then AllStatus503 ''No weather data available'' es
      else AllStatus200
               \<lparr>all_success = True, all_location = l, all_results = rs,
                all_errors = (if length es > 0 then Some es else None),
                totalSources = length ?svcs, successfulSources = length rs,
                failedSources = length es\<rparr>)"
    using cl fold by (simp add: getAllCurrentWeather_def Let_def xs_def)
  show ?thesis
  proof (intro conjI impI)
    assume "spec_succeeding now l ?svcs \<noteq> {}"
    then have "length rs \<noteq> 0" using len by simp
    then show "\<exists>c. getAllCurrentWeather now loc ow wa aw settled = AllStatus200 c
           \<and> all_success c
           \<and> result_source ` set (all_results c) = spec_succeeding now l ?svcs
           \<and> error_source ` set (case all_errors c of None \<Rightarrow> [] | Some errors \<Rightarrow> errors)
               = spec_failing now l ?svcs"
      using val r e es_len by auto
  next
    assume none: "spec_succeeding now l ?svcs = {}"
    then have "length rs = 0" using len by simp
    then show "\<exists>errors. getAllCurrentWeather now loc ow wa aw settled
                    = AllStatus503 ''No weather data available'' errors
           \<and> error_source ` set errors = fst ` set ?svcs"
      using val e all[OF none] by simp
  qed
qed

lemma scenario_available: "isAvailable (answering d)" "isAvailable (throwing m)"
  by (simp_all add: answering_def throwing_def)

lemma scenario_settled: "set [(''AccuWeather'', aw), (''WeatherAPI'', wa), (''OpenWeatherMap'', ow)]
   = set (filter (\<lambda>e. isAvailable (snd e)) (services ow wa aw))"
  if "isAvailable ow" "isAvailable wa" "isAvailable aw"
  using that by (simp add: services_def insert_commute)

lemma scenario_succeeding: "spec_succeeding now l (services ow wa aw) = {''OpenWeatherMap'', ''AccuWeather''}"
  if "spec_succeeds now l ow" "\<not> spec_succeeds now l wa" "spec_succeeds now l aw"
  unfolding spec_succeeding_def services_def using that by auto

lemma scenario_failing: "spec_failing now l (services ow wa aw) = {''WeatherAPI''}"
  if "spec_succeeds now l ow" "\<not> spec_succeeds now l wa" "spec_succeeds now l aw"
  unfolding spec_failing_def services_def using that by auto

text \<open>
  Claim C1. For a non-empty location and any order in which the calls to the available
  services settle, \<open>compareCurrentWeather\<close> always produces a response. When at least one of
  the three providers succeeds the response is the successful one: \<open>results\<close> has an entry
  for exactly the providers that succeed and \<open>errors\<close> an entry for exactly those that fail,
  with the two counts in \<open>sources\<close>. When no provider succeeds the response is the status
  503 with the error \<open>No weather data available\<close> and an error entry for each of the three
  providers. \<open>getAllCurrentWeather\<close>, for a location that \<open>cleanLocation\<close> accepts, answers
  in the same way with its two arrays.
\<close>

theorem aggregation_partial_failure:
  "(trim loc \<noteq> [] \<and> set settled = {e \<in> set (services ow wa aw). isAvailable (snd e)} \<longrightarrow>
     (spec_succeeding now (trim loc) (services ow wa aw) \<noteq> {} \<longrightarrow>
        (\<exists>c. compareCurrentWeather now loc ow wa aw settled = Status200 c
           \<and> comparison_success c
           \<and> fst ` set (comparison_results c) = spec_succeeding now (trim loc) (services ow wa aw)
           \<and> fst ` set (case comparison_errors c of None \<Rightarrow> [] | Some errors \<Rightarrow> errors)
               = spec_failing now (trim loc) (services ow wa aw)
           \<and> sources_successful (comparison_sources c)
               = card (spec_succeeding now (trim loc) (services ow wa aw))
           \<and> sources_failed (comparison_sources c)
               = card (spec_failing now (trim loc) (services ow wa aw))
           \<and> sources_total (comparison_sources c) = 3))
   \<and> (spec_succeeding now (trim loc) (services ow wa aw) = {} \<longrightarrow>
        (\<exists>errors. compareCurrentWeather now loc ow wa aw settled
                    = Status503 ''No weather data available'' errors
           \<and> fst ` set errors = spec_failing now (trim loc) (services ow wa aw)
           \<and> fst ` set errors = fst ` set (services ow wa aw))))
   \<and> (cleanLocation loc = Inr l \<and> set settled = {e \<in> set (services ow wa aw). isAvailable (snd e)} \<longrightarrow>
     (spec_succeeding now l (services ow wa aw) \<noteq> {} \<longrightarrow>
        (\<exists>c. getAllCurrentWeather now loc ow wa aw settled = AllStatus200 c
           \<and> all_success c
           \<and> result_source ` set (all_results c) = spec_succeeding now l (services ow wa aw)
           \<and> error_source ` set (case all_errors c of None \<Rightarrow> [] | Some errors \<Rightarrow> errors)
               = spec_failing now l (services ow wa aw)))
   \<and> (spec_succeeding now l (services ow wa aw) = {} \<longrightarrow>
        (\<exists>errors. getAllCurrentWeather now loc ow wa aw settled
                    = AllStatus503 ''No weather data available'' errors
           \<and> error_source ` set errors = fst ` set (services ow wa aw))))"
proof (rule conjI)
  show "trim loc \<noteq> [] \<and> set settled = {e \<in> set (services ow wa aw). isAvailable (snd e)} \<longrightarrow>
     (spec_succeeding now (trim loc) (services ow wa aw) \<noteq> {} \<longrightarrow>
        (\<exists>c. compareCurrentWeather now loc ow wa aw settled = Status200 c
           \<and> comparison_success c
           \<and> fst ` set (comparison_results c) = spec_succeeding now (trim loc) (services ow wa aw)
           \<and> fst ` set (case comparison_errors c of None \<Rightarrow> [] | Some errors \<Rightarrow> errors)
               = spec_failing now (trim loc) (services ow wa aw)
           \<and> sources_successful (comparison_sources c)
               = card (spec_succeeding now (trim loc) (services ow wa aw))
           \<and> sources_failed (comparison_sources c)
               = card (spec_failing now (trim loc) (services ow wa aw))
           \<and> sources_total (comparison_sources c) = 3))
   \<and> (spec_succeeding now (trim loc) (services ow wa aw) = {} \<longrightarrow>
        (\<exists>errors. compareCurrentWeather now loc ow wa aw settled
                    = Status503 ''No weather data available'' errors
           \<and> fst ` set errors = spec_failing now (trim loc) (services ow wa aw)
           \<and> fst ` set errors = fst ` set (services ow wa aw)))"
    by (rule compareCurrentWeather_keys)
next
  show "cleanLocation loc = Inr l \<and> set settled = {e \<in> set (services ow wa aw). isAvailable (snd e)} \<longrightarrow>
     (spec_succeeding now l (services ow wa aw) \<noteq> {} \<longrightarrow>
        (\<exists>c. getAllCurrentWeather now loc ow wa aw settled = AllStatus200 c
           \<and> all_success c
           \<and> result_source ` set (all_results c) = spec_succeeding now l (services ow wa aw)
           \<and> error_source ` set (case all_errors c of None \<Rightarrow> [] | Some errors \<Rightarrow> errors)
               = spec_failing now l (services ow wa aw)))
   \<and> (spec_succeeding now l (services ow wa aw) = {} \<longrightarrow>
        (\<exists>errors. getAllCurrentWeather now loc ow wa aw settled
                    = AllStatus503 ''No weather data available'' errors
           \<and> error_source ` set errors = fst ` set (services ow wa aw)))"
  proof
    assume "cleanLocation loc = Inr l \<and> set settled = {e \<in> set (services ow wa aw). isAvailable (snd e)}"
    then show "(spec_succeeding now l (services ow wa aw) \<noteq> {} \<longrightarrow>
        (\<exists>c. getAllCurrentWeather now loc ow wa aw settled = AllStatus200 c
           \<and> all_success c
           \<and> result_source ` set (all_results c) = spec_succeeding now l (services ow wa aw)
           \<and> error_source ` set (case all_errors c of None \<Rightarrow> [] | Some errors \<Rightarrow> errors)
               = spec_failing now l (services ow wa aw)))
   \<and> (spec_succeeding now l (services ow wa aw) = {} \<longrightarrow>
        (\<exists>errors. getAllCurrentWeather now loc ow wa aw settled
                    = AllStatus503 ''No weather data available'' errors
           \<and> error_source ` set errors = fst ` set (services ow wa aw)))"
      using getAllCurrentWeather_partial_failure[of loc l settled ow wa aw now] by (elim conjE)
  qed
qed

text \<open>
  The scenario of the specification: of the three providers the second throws. The calls
  settle in another order than the services are listed.
\<close>

theorem aggregation_partial_failure_witness:
  "trim ''Leeds'' \<noteq> []
   \<and> set [(''AccuWeather'', answering (observation ''AccuWeather'' 12)),
          (''WeatherAPI'', throwing ''WeatherAPI error: timeout of 10000ms exceeded''),
          (''OpenWeatherMap'', answering (observation ''OpenWeatherMap'' 10))]
     = {e \<in> set (services (answering (observation ''OpenWeatherMap'' 10))
                          (throwing ''WeatherAPI error: timeout of 10000ms exceeded'')
                          (answering (observation ''AccuWeather'' 12))).
          isAvailable (snd e)}
   \<and> (\<exists>c. compareCurrentWeather ''2024-01-01T00:00:00.000Z'' ''Leeds''
              (answering (observation ''OpenWeatherMap'' 10))
              (throwing ''WeatherAPI error: timeout of 10000ms exceeded'')
              (answering (observation ''AccuWeather'' 12))
              [(''AccuWeather'', answering (observation ''AccuWeather'' 12)),
               (''WeatherAPI'', throwing ''WeatherAPI error: timeout of 10000ms exceeded''),
               (''OpenWeatherMap'', answering (observation ''OpenWeatherMap'' 10))]
            = Status200 c
        \<and> fst ` set (comparison_results c) = {''OpenWeatherMap'', ''AccuWeather''}
        \<and> fst ` set (case comparison_errors c of None \<Rightarrow> [] | Some errors \<Rightarrow> errors)
            = {''WeatherAPI''}
        \<and> sources_successful (comparison_sources c) = 2
        \<and> sources_failed (comparison_sources c) = 1)
   \<and> cleanLocation ''Leeds'' = Inr ''Leeds''
   \<and> (\<exists>c. getAllCurrentWeather ''2024-01-01T00:00:00.000Z'' ''Leeds''
              (answering (observation ''OpenWeatherMap'' 10))
              (throwing ''WeatherAPI error: timeout of 10000ms exceeded'')
              (answering (observation ''AccuWeather'' 12))
              [(''AccuWeather'', answering (observation ''AccuWeather'' 12)),
               (''WeatherAPI'', throwing ''WeatherAPI error: timeout of 10000ms exceeded''),
               (''OpenWeatherMap'', answering (observation ''OpenWeatherMap'' 10))]
            = AllStatus200 c
        \<and> result_source ` set (all_results c) = {''OpenWeatherMap'', ''AccuWeather''}
        \<and> error_source ` set (case all_errors c of None \<Rightarrow> [] | Some errors \<Rightarrow> errors)
            = {''WeatherAPI''})"
proof -
  define ow where "ow = answering (observation ''OpenWeatherMap'' 10)"
  define wa where "wa = throwing ''WeatherAPI error: timeout of 10000ms exceeded''"
  define aw where "aw = answering (observation ''AccuWeather'' 12)"
  define now where "now = ''2024-01-01T00:00:00.000Z''"
  define settled where "settled = [(''AccuWeather'', aw), (''WeatherAPI'', wa), (''OpenWeatherMap'', ow)]"
  have t: "trim ''Leeds'' = ''Leeds''" by (simp add: trim_def whitespace_def)
  have ne: "trim ''Leeds'' \<noteq> []" unfolding t by simp
  have a: "isAvailable ow" "isAvailable wa" "isAvailable aw"
    unfolding ow_def wa_def aw_def by (rule scenario_available)+
  have s: "spec_succeeds now (trim ''Leeds'') ow" "\<not> spec_succeeds now (trim ''Leeds'') wa"
    "spec_succeeds now (trim ''Leeds'') aw"
    unfolding ow_def wa_def aw_def by (rule scenario_services)+
  have "set settled = set (filter (\<lambda>e. isAvailable (snd e)) (services ow wa aw))"
    unfolding settled_def by (rule scenario_settled[OF a])
  then have st: "set settled = {e \<in> set (services ow wa aw). isAvailable (snd e)}"
    by (simp only: set_filter)
  have ok: "spec_succeeding now (trim ''Leeds'') (services ow wa aw) = {''OpenWeatherMap'', ''AccuWeather''}"
    by (rule scenario_succeeding[OF s])
  have ko: "spec_failing now (trim ''Leeds'') (services ow wa aw) = {''WeatherAPI''}"
    by (rule scenario_failing[OF s])
  have some: "spec_succeeding now (trim ''Leeds'') (services ow wa aw) \<noteq> {}"
    unfolding ok by simp
  have c2: "card {''OpenWeatherMap'', ''AccuWeather''} = 2" by simp
  have c1: "card {''WeatherAPI''} = 1" by simp
  note T = aggregation_partial_failure [of "''Leeds''" settled ow wa aw now, THEN conjunct1]
  note E = T[THEN mp, OF conjI[OF ne st], THEN conjunct1, THEN mp, OF some]
  from E obtain c where c:
    "compareCurrentWeather now ''Leeds'' ow wa aw settled = Status200 c
     \<and> comparison_success c
     \<and> fst ` set (comparison_results c) = spec_succeeding now (trim ''Leeds'') (services ow wa aw)
     \<and> fst ` set (case comparison_errors c of None \<Rightarrow> [] | Some errors \<Rightarrow> errors)
         = spec_failing now (trim ''Leeds'') (services ow wa aw)
     \<and> sources_successful (comparison_sources c)
         = card (spec_succeeding now (trim ''Leeds'') (services ow wa aw))
     \<and> sources_failed (comparison_sources c)
         = card (spec_failing now (trim ''Leeds'') (services ow wa aw))
     \<and> sources_total (comparison_sources c) = 3"
    by (rule exE)
  have r1: "compareCurrentWeather now ''Leeds'' ow wa aw settled = Status200 c"
    by (rule c[THEN conjunct1])
  have r2: "fst ` set (comparison_results c) = {''OpenWeatherMap'', ''AccuWeather''}"
    using c[THEN conjunct2, THEN conjunct2, THEN conjunct1] by (simp only: ok)
  have r3: "fst ` set (case comparison_errors c of None \<Rightarrow> [] | Some errors \<Rightarrow> errors)
            = {''WeatherAPI''}"
    using c[THEN conjunct2, THEN conjunct2, THEN conjunct2, THEN conjunct1] by (simp only: ko)
  have r4: "sources_successful (comparison_sources c) = 2"
    using c[THEN conjunct2, THEN conjunct2, THEN conjunct2, THEN conjunct2, THEN conjunct1]
    by (simp only: ok c2)
  have r5: "sources_failed (comparison_sources c) = 1"
    using c[THEN conjunct2, THEN conjunct2, THEN conjunct2, THEN conjunct2, THEN conjunct2,
            THEN conjunct1]
    by (simp only: ko c1)
  have ex: "\<exists>c. compareCurrentWeather now ''Leeds'' ow wa aw settled = Status200 c
        \<and> fst ` set (comparison_results c) = {''OpenWeatherMap'', ''AccuWeather''}
        \<and> fst ` set (case comparison_errors c of None \<Rightarrow> [] | Some errors \<Rightarrow> errors)
            = {''WeatherAPI''}
        \<and> sources_successful (comparison_sources c) = 2
        \<and> sources_failed (comparison_sources c) = 1"
    using r1 r2 r3 r4 r5 by (intro exI[of _ c] conjI)
  have cl: "cleanLocation ''Leeds'' = Inr ''Leeds''"
    by (simp add: cleanLocation_def trim_def whitespace_def Let_def char_classes)
  have some': "spec_succeeding now ''Leeds'' (services ow wa aw) \<noteq> {}"
    using some unfolding t .
  note T' = aggregation_partial_failure [of "''Leeds''" settled ow wa aw now "''Leeds''", THEN conjunct2]
  note E' = T'[THEN mp, OF conjI[OF cl st], THEN conjunct1, THEN mp, OF some']
  from E' obtain c' where c':
    "getAllCurrentWeather now ''Leeds'' ow wa aw settled = AllStatus200 c'
     \<and> all_success c'
     \<and> result_source ` set (all_results c') = spec_succeeding now ''Leeds'' (services ow wa aw)
     \<and> error_source ` set (case all_errors c' of None \<Rightarrow> [] | Some errors \<Rightarrow> errors)
         = spec_failing now ''Leeds'' (services ow wa aw)"
    by (rule exE)
  have q1: "getAllCurrentWeather now ''Leeds'' ow wa aw settled = AllStatus200 c'"
    by (rule c'[THEN conjunct1])
  have q2: "result_source ` set (all_results c') = {''OpenWeatherMap'', ''AccuWeather''}"
    using c'[THEN conjunct2, THEN conjunct2, THEN conjunct1] ok[unfolded t] by (rule trans)
  have q3: "error_source ` set (case all_errors c' of None \<Rightarrow> [] | Some errors \<Rightarrow> errors)
            = {''WeatherAPI''}"
    using c'[THEN conjunct2, THEN conjunct2, THEN conjunct2] ko[unfolded t] by (rule trans)
  have ex': "\<exists>c. getAllCurrentWeather now ''Leeds'' ow wa aw settled = AllStatus200 c
        \<and> result_source ` set (all_results c) = {''OpenWeatherMap'', ''AccuWeather''}
        \<and> error_source ` set (case all_errors c of None \<Rightarrow> [] | Some errors \<Rightarrow> errors)
            = {''WeatherAPI''}"
    using q1 q2 q3 by (intro exI[of _ c'] conjI)
  have all: "trim ''Leeds'' \<noteq> []
     \<and> set settled = {e \<in> set (services ow wa aw). isAvailable (snd e)}
     \<and> (\<exists>c. compareCurrentWeather now ''Leeds'' ow wa aw settled = Status200 c
        \<and> fst ` set (comparison_results c) = {''OpenWeatherMap'', ''AccuWeather''}
        \<and> fst ` set (case comparison_errors c of None \<Rightarrow> [] | Some errors \<Rightarrow> errors)
            = {''WeatherAPI''}
        \<and> sources_successful (comparison_sources c) = 2
        \<and> sources_failed (comparison_sources c) = 1)
     \<and> cleanLocation ''Leeds'' = Inr ''Leeds''
     \<and> (\<exists>c. getAllCurrentWeather now ''Leeds'' ow wa aw settled = AllStatus200 c
        \<and> result_source ` set (all_results c) = {''OpenWeatherMap'', ''AccuWeather''}
        \<and> error_source ` set (case all_errors c of None \<Rightarrow> [] | Some errors \<Rightarrow> errors)
            = {''WeatherAPI''})"
    using ne st ex cl ex' by (intro conjI)
  show ?thesis
    using all unfolding settled_def ow_def wa_def aw_def now_def .
qed

end
